theory Spec2Isabelle
  imports Complex_Main "HOL-Library.Monad_Syntax"
begin

section \<open>The likelihood engine of juliet.py\<close>

text \<open>
  The development embeds the per-sample part of \<^verbatim>\<open>juliet.py\<close>: the prior transform
  (\<^verbatim>\<open>transform_prior\<close>, \<^verbatim>\<open>prior\<close>), the white-noise likelihood
  (\<^verbatim>\<open>gaussian_log_likelihood\<close>) and the aggregator \<^verbatim>\<open>loglike\<close>, together with the
  module-level set-up values they read.

  Conventions of the embedding.
  \<^item> Python and numpy floats are modelled by \<^typ>\<open>real\<close>: rounding, infinities and NaN
    are outside the model, except in the array that \<^verbatim>\<open>prior\<close> fills, whose cells hold a
    number or not-a-number. A theorem about a formula that divides or takes a logarithm,
    a square root or an arc cosine carries the hypothesis that keeps the formula inside
    the reals.
  \<^item> One-dimensional numpy arrays are \<^typ>\<open>real list\<close>.
  \<^item> A Python exception (KeyError, IndexError, NameError, a shape mismatch of numpy) is
    the value \<open>Exn\<close>; the early \<^verbatim>\<open>return -1e101\<close> is the value \<open>Ret\<close>, which keeps the
    store as it is at that moment.
  \<^item> The module-level objects that \<^verbatim>\<open>loglike\<close> mutates form the record \<open>store\<close>;
    the values fixed before sampling form the record \<open>config\<close>. The external libraries
    (batman, radvel, george, celerite) are fields of \<open>config\<close> and the transforms of the
    module \<^verbatim>\<open>utils\<close> are the record \<open>utils\<close>, so that every theorem holds for any behaviour
    of them.
\<close>

subsection \<open>Control flow of one evaluation\<close>

text \<open>
  A block of \<^verbatim>\<open>loglike\<close> either raises (\<open>Exn\<close>), leaves the function through an early
  \<^verbatim>\<open>return\<close> with a value and the store of that moment (\<open>Ret\<close>), or falls through to
  the next statement with its local variables and the store (\<open>Go\<close>).
\<close>

datatype ('a, 's) flow = Exn | Ret real 's | Go 'a 's

text \<open>A \<^verbatim>\<open>for\<close> loop: the body runs on each element in order and stops at the first
  exception or early return.\<close>

fun for_each :: "('x \<Rightarrow> 'a \<Rightarrow> 's \<Rightarrow> ('a, 's) flow) \<Rightarrow> 'x list \<Rightarrow> 'a \<Rightarrow> 's \<Rightarrow> ('a, 's) flow" where
  "for_each body [] loc s = Go loc s"
| "for_each body (x # xs) loc s =
     (case body x loc s of
        Exn \<Rightarrow> Exn
      | Ret v s' \<Rightarrow> Ret v s'
      | Go loc' s' \<Rightarrow> for_each body xs loc' s')"

text \<open>The value \<^verbatim>\<open>-1e101\<close> returned for an infeasible sample.\<close>

definition floor_value :: real where
  "floor_value = - (10 ^ 101)"

subsection \<open>The prior registry and the store\<close>

text \<open>
  \<^verbatim>\<open>priors\<close> is a dictionary from parameter names to dictionaries with the keys
  \<^verbatim>\<open>'type'\<close>, \<^verbatim>\<open>'value'\<close> and \<^verbatim>\<open>'cvalue'\<close>. Its iteration order fixes the position of each
  free parameter in the cube, so it is an association list.
\<close>

record prior_info =
  ptype :: string
  pvalue :: "real list"
  cvalue :: real

type_synonym registry = "(string \<times> prior_info) list"

definition cvalue_of :: "registry \<Rightarrow> string \<Rightarrow> real option" where
  "cvalue_of pri k = map_option cvalue (map_of pri k)"

text \<open>\<^verbatim>\<open>str(i)\<close> of a planet or covariate number.\<close>

definition digit_char :: "nat \<Rightarrow> char" where
  "digit_char d = ''0123456789'' ! d"

function str_nat :: "nat \<Rightarrow> string" where
  "str_nat n = (if n < 10 then [digit_char n] else str_nat (n div 10) @ [digit_char (n mod 10)])"
  by pat_completeness auto
termination
  by (relation "measure (\<lambda>n. n)") auto

declare str_nat.simps [simp del]

text \<open>The fields of a \<^verbatim>\<open>batman.TransitParams\<close> object that \<^verbatim>\<open>loglike\<close> writes.\<close>

record batman_params =
  bm_t0 :: real
  bm_per :: real
  bm_rp :: real
  bm_a :: real
  bm_inc :: real
  bm_ecc :: real
  bm_w :: real
  bm_u :: "real list"

text \<open>
  The module-level objects mutated by \<^verbatim>\<open>loglike\<close>: the \<^verbatim>\<open>'cvalue'\<close> fields of \<^verbatim>\<open>priors\<close>,
  \<^verbatim>\<open>lc_dictionary[instrument]['params']\<close> and \<^verbatim>\<open>['GPVector']\<close>, \<^verbatim>\<open>radvel_params\<close>,
  \<^verbatim>\<open>rvresiduals\<close>, \<^verbatim>\<open>rvresiduals_err\<close> and \<^verbatim>\<open>rv_dictionary['GPVector']\<close>.
\<close>

record store =
  priors :: registry
  lc_params :: "string \<Rightarrow> batman_params"
  lc_GPVector :: "string \<Rightarrow> real list"
  radvel_params :: "string \<rightharpoonup> real"
  rvresiduals :: "real list"
  rvresiduals_err :: "real list"
  rv_GPVector :: "real list"

text \<open>The entries of \<^verbatim>\<open>lc_dictionary[instrument]\<close> fixed at set-up, with the index array
  \<^verbatim>\<open>instrument_indexes_lc[instrument]\<close>. \<open>GP_group\<close> holds the keys \<^verbatim>\<open>'GP_sigma'\<close>,
  \<^verbatim>\<open>'GP_alpha0'\<close>, \<^verbatim>\<open>'GP_B'\<close> and so on, which name the group of instruments sharing a
  hyperparameter.\<close>

record lc_instrument =
  ldlaw :: string
  GPDetrend :: bool
  GPType :: string
  nX :: nat
  GP_group :: "string \<rightharpoonup> string"
  indexes :: "nat list"

text \<open>
  The values fixed before sampling starts. A Python name that may be \<^verbatim>\<open>None\<close> and is only
  tested for it (\<^verbatim>\<open>lcfilename\<close>, \<^verbatim>\<open>rvfilename\<close>, \<^verbatim>\<open>rveparamfile\<close>) is the boolean
  "is not None". The last four fields are the external libraries: the light curve of
  \<^verbatim>\<open>lc_dictionary[instrument]['m']\<close>, the model of radvel on \<^verbatim>\<open>t_rv\<close>, and the
  log-likelihoods of the photometric and the radial-velocity GP objects as functions of the
  parameter vector set just before (\<open>None\<close> when the library raises).
\<close>

record config =
  lcfilename :: bool
  rvfilename :: bool
  rveparamfile :: bool
  n_transit :: nat
  n_rv :: nat
  numbering_transit :: "nat list"
  numbering_rv :: "nat list"
  efficient_bp :: bool
  pl :: real
  pu :: real
  fitrho :: bool
  stellar_density :: bool
  sd_mean :: real
  sd_sigma :: real
  fitrvline :: bool
  fitrvquad :: bool
  ecc_parametrization_transit :: "nat \<rightharpoonup> nat"
  ecc_parametrization_rv :: "nat \<rightharpoonup> nat"
  inames_lc :: "string list"
  inames_rv :: "string list"
  lc_dictionary :: "string \<Rightarrow> lc_instrument"
  instrument_indexes_rv :: "string \<Rightarrow> nat list"
  lcones :: "real list"
  f_lc :: "real list"
  ferr_lc :: "real list"
  t_rv :: "real list"
  rv_rv :: "real list"
  rverr_rv :: "real list"
  rv_GPType :: string
  rv_GP_group :: "string \<rightharpoonup> string"
  light_curve :: "string \<Rightarrow> batman_params \<Rightarrow> real list"
  rv_model :: "(string \<rightharpoonup> real) \<Rightarrow> real list"
  lc_gp_log_likelihood :: "string \<Rightarrow> real list \<Rightarrow> real list \<Rightarrow> real option"
  rv_gp_log_likelihood :: "real list \<Rightarrow> real list \<Rightarrow> real list \<Rightarrow> real option"

text \<open>Gravitational constant (line 640) and eccentricity limit (line 643).\<close>

definition G :: real where
  "G = 667408 / 10 ^ 16"

definition ecclim :: real where
  "ecclim = 95 / 100"

subsection \<open>numpy helpers\<close>

text \<open>Reading and writing an array at an index array, and at one index. An index out
  of range raises.\<close>

definition gather :: "real list \<Rightarrow> nat list \<Rightarrow> real list option" where
  "gather xs idx = (if list_all (\<lambda>k. k < length xs) idx then Some (map (nth xs) idx) else None)"

definition scatter :: "real list \<Rightarrow> nat list \<Rightarrow> real list \<Rightarrow> real list option" where
  "scatter xs idx vs =
     (if list_all (\<lambda>k. k < length xs) idx \<and> length vs = length idx
      then Some (fold (\<lambda>kv ys. ys[fst kv := snd kv]) (zip idx vs) xs)
      else None)"

definition set_item :: "real list \<Rightarrow> nat \<Rightarrow> real \<Rightarrow> real list option" where
  "set_item v k x = (if k < length v then Some (v[k := x]) else None)"

definition nth_opt :: "'a list \<Rightarrow> nat \<Rightarrow> 'a option" where
  "nth_opt xs n = (if n < length xs then Some (xs ! n) else None)"

text \<open>\<^verbatim>\<open>numpy.arctan2(y, x)\<close>: the angle of the point \<open>(x, y)\<close> in \<open>(-\<pi>, \<pi>]\<close>.\<close>

definition arctan2 :: "real \<Rightarrow> real \<Rightarrow> real" where
  "arctan2 y x =
     (if x > 0 then arctan (y / x)
      else if x < 0 \<and> y \<ge> 0 then arctan (y / x) + pi
      else if x < 0 then arctan (y / x) - pi
      else if y > 0 then pi / 2
      else if y < 0 then - (pi / 2)
      else 0)"

subsection \<open>White-noise likelihood (lines 615 to 618)\<close>

definition log2pi :: real where
  "log2pi = ln (2 * pi)"

text \<open>
  Element-wise arithmetic of two one-dimensional arrays: numpy broadcasts an array of
  length one and raises for any other pair of different lengths.
\<close>

definition broadcast2 :: "(real \<Rightarrow> real \<Rightarrow> real) \<Rightarrow> real list \<Rightarrow> real list \<Rightarrow> real list option" where
  "broadcast2 f xs ys =
     (if length xs = length ys then Some (map2 f xs ys)
      else if length xs = 1 then Some (map (f (hd xs)) ys)
      else if length ys = 1 then Some (map (\<lambda>x. f x (hd ys)) xs)
      else None)"

definition gaussian_log_likelihood :: "real list \<Rightarrow> real list \<Rightarrow> real \<Rightarrow> real option" where
  "gaussian_log_likelihood residuals errors jitter =
     (let taus = map (\<lambda>e. 1 / (e ^ 2 + jitter ^ 2)) errors in
      case broadcast2 (\<lambda>tau r. ln (1 / tau) + tau * r ^ 2) taus residuals of
        None \<Rightarrow> None
      | Some terms \<Rightarrow> Some (- 0.5 * (real (length residuals) * log2pi + sum_list terms)))"

subsection \<open>Efficient sampling of the (b,p) plane (lines 143 to 147, 692 to 697)\<close>

definition Ar :: "real \<Rightarrow> real \<Rightarrow> real" where
  "Ar p_l p_u = (p_u - p_l) / (2 + p_l + p_u)"

definition bp_from_r :: "real \<Rightarrow> real \<Rightarrow> real \<Rightarrow> real \<Rightarrow> real \<times> real" where
  "bp_from_r p_l p_u r1 r2 =
     (if r1 > Ar p_l p_u then
        ((1 + p_l) * (1 + (r1 - 1) / (1 - Ar p_l p_u)), (1 - r2) * p_l + r2 * p_u)
      else
        ((1 + p_l) + sqrt (r1 / Ar p_l p_u) * r2 * (p_u - p_l),
         p_u + (p_l - p_u) * sqrt (r1 / Ar p_l p_u) * (1 - r2)))"

subsection \<open>Sequencing\<close>

definition then_do :: "('a, 's) flow \<Rightarrow> ('a \<Rightarrow> 's \<Rightarrow> ('b, 's) flow) \<Rightarrow> ('b, 's) flow" where
  "then_do m f = (case m of Exn \<Rightarrow> Exn | Ret v s \<Rightarrow> Ret v s | Go x s \<Rightarrow> f x s)"

text \<open>A computation that only reads the store: \<open>None\<close> is an exception.\<close>

definition lift_opt :: "'a option \<Rightarrow> 's \<Rightarrow> ('a, 's) flow" where
  "lift_opt m s = (case m of None \<Rightarrow> Exn | Some x \<Rightarrow> Go x s)"

fun fold_opt :: "('x \<Rightarrow> 'a \<Rightarrow> 'a option) \<Rightarrow> 'x list \<Rightarrow> 'a \<Rightarrow> 'a option" where
  "fold_opt f [] v = Some v"
| "fold_opt f (x # xs) v = (case f x v of None \<Rightarrow> None | Some v' \<Rightarrow> fold_opt f xs v')"

subsection \<open>Assigning the sample to the registry (lines 647 to 651)\<close>

fun assign_cvalues :: "registry \<Rightarrow> real list \<Rightarrow> nat \<Rightarrow> registry option" where
  "assign_cvalues [] cube pcounter = Some []"
| "assign_cvalues ((pname, info) # rest) cube pcounter =
     (if ptype info \<noteq> ''fixed'' then
        (case nth_opt cube pcounter of
           None \<Rightarrow> None
         | Some x \<Rightarrow>
             map_option (Cons (pname, info\<lparr>cvalue := x\<rparr>)) (assign_cvalues rest cube (pcounter + 1)))
      else map_option (Cons (pname, info)) (assign_cvalues rest cube pcounter))"

subsection \<open>Period ordering (lines 657 to 667 and 792 to 802)\<close>

text \<open>
  \<open>planet_period\<close> is \<^verbatim>\<open>priors['P_p'+str(i)]['cvalue']\<close> for \<^verbatim>\<open>i = numbering[n]\<close>.
  \<open>period_step\<close> is the body of the loop over \<^verbatim>\<open>n in range(n_transit)\<close> (respectively
  \<^verbatim>\<open>n_rv\<close>); the local variable \<^verbatim>\<open>cP\<close> is bound by the iteration \<^verbatim>\<open>n == 0\<close>, which comes
  first, so its value before the loop is never read.
\<close>

definition planet_period :: "nat list \<Rightarrow> registry \<Rightarrow> nat \<Rightarrow> real option" where
  "planet_period numbering pri n =
     do { i \<leftarrow> nth_opt numbering n; cvalue_of pri (''P_p'' @ str_nat i) }"

definition period_step :: "nat list \<Rightarrow> nat \<Rightarrow> real \<Rightarrow> store \<Rightarrow> (real, store) flow" where
  "period_step numbering n cP s =
     (case planet_period numbering (priors s) n of
        None \<Rightarrow> Exn
      | Some P_i \<Rightarrow>
          if n = 0 then (if P_i < 0 then Ret floor_value s else Go P_i s)
          else if cP < P_i then (if P_i < 0 then Ret floor_value s else Go P_i s)
          else Ret floor_value s)"

definition period_gate :: "nat list \<Rightarrow> nat \<Rightarrow> store \<Rightarrow> (real, store) flow" where
  "period_gate numbering n_planets s = for_each (period_step numbering) [0..<n_planets] 0 s"

subsection \<open>Transit geometry (lines 532 to 544 and 675 to 707)\<close>

definition reverse_ld_coeffs :: "string \<Rightarrow> real \<Rightarrow> real \<Rightarrow> (real \<times> real) option" where
  "reverse_ld_coeffs ld_law q1 q2 =
     (if ld_law = ''quadratic'' then Some (2 * sqrt q1 * q2, sqrt q1 * (1 - 2 * q2))
      else if ld_law = ''squareroot'' then Some (sqrt q1 * (1 - 2 * q2), 2 * sqrt q1 * q2)
      else if ld_law = ''logarithmic'' then Some (1 - sqrt q1 * q2, 1 - sqrt q1)
      else if ld_law = ''linear'' then Some (q1, q2)
      else None)"

definition ld_coefficients :: "config \<Rightarrow> registry \<Rightarrow> string \<Rightarrow> real list option" where
  "ld_coefficients cfg pri instrument =
     (if ldlaw (lc_dictionary cfg instrument) \<noteq> ''linear'' then
        do {
          q1 \<leftarrow> cvalue_of pri (''q1_'' @ instrument);
          q2 \<leftarrow> cvalue_of pri (''q2_'' @ instrument);
          c \<leftarrow> reverse_ld_coeffs (ldlaw (lc_dictionary cfg instrument)) q1 q2;
          Some [fst c, snd c]
        }
      else
        do {
          q1 \<leftarrow> cvalue_of pri (''q1_'' @ instrument);
          Some [q1]
        })"

definition a_from_rho :: "real \<Rightarrow> real \<Rightarrow> real" where
  "a_from_rho rho P = ((rho * G * ((P * 24 * 3600) ^ 2)) / (3 * pi)) powr (1 / 3)"

text \<open>The values \<^verbatim>\<open>a, b, p, t0, P\<close> of planet \<open>i\<close>, in this order.\<close>

definition planet_geometry :: "config \<Rightarrow> registry \<Rightarrow> nat \<Rightarrow> (real \<times> real \<times> real \<times> real \<times> real) option" where
  "planet_geometry cfg pri i =
     (let cv = (\<lambda>name. cvalue_of pri (name @ str_nat i)) in
      if efficient_bp cfg then
        do {
          (a, r1, r2, t0, P) \<leftarrow>
            (if \<not> fitrho cfg then
               do {
                 a \<leftarrow> cv ''a_p''; r1 \<leftarrow> cv ''r1_p''; r2 \<leftarrow> cv ''r2_p'';
                 t0 \<leftarrow> cv ''t0_p''; P \<leftarrow> cv ''P_p'';
                 Some (a, r1, r2, t0, P)
               }
             else
               do {
                 rho \<leftarrow> cvalue_of pri ''rho''; r1 \<leftarrow> cv ''r1_p''; r2 \<leftarrow> cv ''r2_p'';
                 t0 \<leftarrow> cv ''t0_p''; P \<leftarrow> cv ''P_p'';
                 Some (a_from_rho rho P, r1, r2, t0, P)
               });
          let (b, p) = bp_from_r (pl cfg) (pu cfg) r1 r2;
          Some (a, b, p, t0, P)
        }
      else
        (if \<not> fitrho cfg then
           do {
             a \<leftarrow> cv ''a_p''; b \<leftarrow> cv ''b_p''; p \<leftarrow> cv ''p_p'';
             t0 \<leftarrow> cv ''t0_p''; P \<leftarrow> cv ''P_p'';
             Some (a, b, p, t0, P)
           }
         else
           do {
             rho \<leftarrow> cvalue_of pri ''rho''; b \<leftarrow> cv ''b_p''; p \<leftarrow> cv ''p_p'';
             t0 \<leftarrow> cv ''t0_p''; P \<leftarrow> cv ''P_p'';
             Some (a_from_rho rho P, b, p, t0, P)
           }))"

subsection \<open>Eccentricity parametrizations (lines 708 to 715 and 813 to 820)\<close>

text \<open>The pair \<^verbatim>\<open>ecc, omega\<close> of planet \<open>i\<close> in the transit part.\<close>

definition resolve_ecc_transit :: "config \<Rightarrow> registry \<Rightarrow> nat \<Rightarrow> (real \<times> real) option" where
  "resolve_ecc_transit cfg pri i =
     (let cv = (\<lambda>name. cvalue_of pri (name @ str_nat i)) in
      case ecc_parametrization_transit cfg i of
        None \<Rightarrow> None
      | Some tag \<Rightarrow>
          if tag = 0 then
            do { e \<leftarrow> cv ''ecc_p''; om \<leftarrow> cv ''omega_p''; Some (e, om) }
          else if tag = 1 then
            do {
              ec \<leftarrow> cv ''ecosomega_p'';
              es \<leftarrow> cv ''esinomega_p'';
              Some (sqrt (ec ^ 2 + es ^ 2), arctan2 es ec * 180 / pi)
            }
          else
            do {
              sc \<leftarrow> cv ''secosomega_p'';
              ss \<leftarrow> cv ''sesinomega_p'';
              Some (sc ^ 2 + ss ^ 2, arctan2 ss sc * 180 / pi)
            })"

text \<open>The pair \<^verbatim>\<open>ecc, omega\<close> of planet \<open>i\<close> in the radial-velocity part.\<close>

definition resolve_ecc_rv :: "config \<Rightarrow> registry \<Rightarrow> nat \<Rightarrow> (real \<times> real) option" where
  "resolve_ecc_rv cfg pri i =
     (let cv = (\<lambda>name. cvalue_of pri (name @ str_nat i)) in
      case ecc_parametrization_rv cfg i of
        None \<Rightarrow> None
      | Some tag \<Rightarrow>
          if tag = 0 then
            do { e \<leftarrow> cv ''ecc_p''; om \<leftarrow> cv ''omega_p''; Some (e, om * pi / 180) }
          else if tag = 1 then
            do {
              ec \<leftarrow> cv ''ecosomega_p'';
              es \<leftarrow> cv ''esinomega_p'';
              Some (sqrt (ec ^ 2 + es ^ 2), arctan2 es ec)
            }
          else
            do {
              sc \<leftarrow> cv ''secosomega_p'';
              ss \<leftarrow> cv ''sesinomega_p'';
              Some (sc ^ 2 + ss ^ 2, arctan2 ss sc)
            })"


subsection \<open>Photometric model (lines 668 to 734)\<close>

text \<open>The local variables that survive the photometric part: the array \<^verbatim>\<open>lcmodel\<close>
  (unbound when there is no light curve file) and the pair \<^verbatim>\<open>a, P\<close> of the planet
  iterated last (unbound when no planet was iterated).\<close>

record lc_locals =
  lcmodel :: "real list option"
  last_aP :: "(real \<times> real) option"

text \<open>\<^verbatim>\<open>lcmodel[idx] = lcmodel[idx]*curve\<close>.\<close>

definition lc_multiply :: "real list option \<Rightarrow> nat list \<Rightarrow> real list \<Rightarrow> real list option" where
  "lc_multiply model_opt idx curve =
     do {
       m \<leftarrow> model_opt;
       cur \<leftarrow> gather m idx;
       new \<leftarrow> broadcast2 (\<lambda>x y. x * y) cur curve;
       scatter m idx new
     }"

text \<open>The body of the loop over \<^verbatim>\<open>n in range(n_transit)\<close> for one instrument.\<close>

definition transit_planet :: "config \<Rightarrow> string \<Rightarrow> nat \<Rightarrow> lc_locals \<Rightarrow> store \<Rightarrow> (lc_locals, store) flow" where
  "transit_planet cfg instrument n loc s =
     (case nth_opt (numbering_transit cfg) n of
        None \<Rightarrow> Exn
      | Some i \<Rightarrow>
     (case ld_coefficients cfg (priors s) instrument of
        None \<Rightarrow> Exn
      | Some coeffs \<Rightarrow>
     (let s1 = s\<lparr>lc_params := (lc_params s)(instrument := (lc_params s instrument)\<lparr>bm_u := coeffs\<rparr>)\<rparr> in
      case planet_geometry cfg (priors s1) i of
        None \<Rightarrow> Exn
      | Some (a, b, p, t0, P) \<Rightarrow>
     (case resolve_ecc_transit cfg (priors s1) i of
        None \<Rightarrow> Exn
      | Some (e, omega) \<Rightarrow>
          if e > ecclim then Ret floor_value s1
          else
            let ecc_factor = (1 + e * sin (omega * pi / 180)) / (1 - e ^ 2);
                inc_inv_factor = (b / a) * ecc_factor
            in
              if \<not> (b > 1 + p \<or> inc_inv_factor \<ge> 1) then
                let inc = arccos inc_inv_factor * 180 / pi;
                    params = (lc_params s1 instrument)
                      \<lparr>bm_t0 := t0, bm_per := P, bm_rp := p, bm_a := a,
                       bm_inc := inc, bm_ecc := e, bm_w := omega\<rparr>;
                    s2 = s1\<lparr>lc_params := (lc_params s1)(instrument := params)\<rparr>
                in
                  (case lc_multiply (lcmodel loc) (indexes (lc_dictionary cfg instrument))
                          (light_curve cfg instrument params) of
                     None \<Rightarrow> Exn
                   | Some m \<Rightarrow> Go \<lparr>lcmodel = Some m, last_aP = Some (a, P)\<rparr> s2)
              else Ret floor_value s1))))"

definition photometric_section :: "config \<Rightarrow> store \<Rightarrow> (lc_locals, store) flow" where
  "photometric_section cfg s =
     (if lcfilename cfg then
        then_do (period_gate (numbering_transit cfg) (n_transit cfg) s)
          (\<lambda>cP s1.
             for_each (\<lambda>instrument. for_each (transit_planet cfg instrument) [0..<n_transit cfg])
               (inames_lc cfg) \<lparr>lcmodel = Some (lcones cfg), last_aP = None\<rparr> s1)
      else Go \<lparr>lcmodel = None, last_aP = None\<rparr> s)"


subsection \<open>GP parameter vectors (lines 353 to 420, 453 to 527, 749 to 779, 863 to 881)\<close>

text \<open>
  The vector \<^verbatim>\<open>GPVector\<close> is allocated once at set-up, with a length that depends on the
  kernel, and \<^verbatim>\<open>loglike\<close> overwrites its entries by index. For radial velocities the
  set-up leaves the program (\<^verbatim>\<open>sys.exit()\<close>) on \<^verbatim>\<open>'SEKernel'\<close>.
\<close>

definition init_lc_GPVector :: "lc_instrument \<Rightarrow> real list option" where
  "init_lc_GPVector d =
     (if GPType d = ''CeleriteQPKernel'' then Some (replicate 5 0)
      else if GPType d = ''ExpSineSquaredSEKernel'' then Some (replicate 5 0)
      else if GPType d = ''SEKernel'' then Some (replicate (nX d + 2) 0)
      else None)"

definition init_rv_GPVector :: "string \<Rightarrow> real list option" where
  "init_rv_GPVector gptype =
     (if gptype = ''SEKernel'' then None
      else if gptype = ''CeleriteQPKernel'' then Some (replicate 5 0)
      else if gptype = ''ExpSineSquaredSEKernel'' then Some (replicate 4 0)
      else None)"

text \<open>\<^verbatim>\<open>priors[role+'_'+dictionary[role]]['cvalue']\<close>: the value of a hyperparameter, found
  through the group bound to its role.\<close>

definition gp_cvalue :: "(string \<rightharpoonup> string) \<Rightarrow> registry \<Rightarrow> string \<Rightarrow> real option" where
  "gp_cvalue groups pri role = do { g \<leftarrow> groups role; cvalue_of pri (role @ ''_'' @ g) }"

definition lc_gp_vector :: "config \<Rightarrow> registry \<Rightarrow> string \<Rightarrow> real list \<Rightarrow> real list option" where
  "lc_gp_vector cfg pri instrument v =
     (let d = lc_dictionary cfg instrument; par = gp_cvalue (GP_group d) pri in
      do {
        v1 \<leftarrow>
          (if GPType d = ''SEKernel'' then
             do {
               sw \<leftarrow> cvalue_of pri (''sigma_w_'' @ instrument);
               va \<leftarrow> set_item v 0 (ln ((sw * (1 / 10 ^ 6)) ^ 2));
               gs \<leftarrow> par ''GP_sigma'';
               vb \<leftarrow> set_item va 1 (ln ((gs * (1 / 10 ^ 6)) ^ 2));
               fold_opt
                 (\<lambda>i w. do { al \<leftarrow> par (''GP_alpha'' @ str_nat i); set_item w (2 + i) (ln (1 / al)) })
                 [0..<nX d] vb
             }
           else Some v);
        v2 \<leftarrow>
          (if GPType d = ''ExpSineSquaredSEKernel'' then
             do {
               sw \<leftarrow> cvalue_of pri (''sigma_w_'' @ instrument);
               va \<leftarrow> set_item v1 0 (ln ((sw * (1 / 10 ^ 6)) ^ 2));
               gs \<leftarrow> par ''GP_sigma'';
               vb \<leftarrow> set_item va 1 (ln ((gs * (1 / 10 ^ 6)) ^ 2));
               al \<leftarrow> par ''GP_alpha'';
               vc \<leftarrow> set_item vb 2 (ln (1 / al));
               ga \<leftarrow> par ''GP_Gamma'';
               vd \<leftarrow> set_item vc 3 ga;
               pr \<leftarrow> par ''GP_Prot'';
               set_item vd 4 (ln pr)
             }
           else Some v1);
        (if GPType d = ''CeleriteQPKernel'' then
           do {
             gb \<leftarrow> par ''GP_B'';
             va \<leftarrow> set_item v2 0 (ln gb);
             gl \<leftarrow> par ''GP_L'';
             vb \<leftarrow> set_item va 1 (ln gl);
             pr \<leftarrow> par ''GP_Prot'';
             vc \<leftarrow> set_item vb 2 (ln pr);
             gc \<leftarrow> par ''GP_C'';
             vd \<leftarrow> set_item vc 3 (ln gc);
             sw \<leftarrow> cvalue_of pri (''sigma_w_'' @ instrument);
             set_item vd 4 (ln (sw * (1 / 10 ^ 6)))
           }
         else Some v2)
      })"

definition rv_gp_vector :: "config \<Rightarrow> registry \<Rightarrow> real list \<Rightarrow> real list option" where
  "rv_gp_vector cfg pri v =
     (let par = gp_cvalue (rv_GP_group cfg) pri in
      do {
        v1 \<leftarrow>
          (if rv_GPType cfg = ''ExpSineSquaredSEKernel'' then
             do {
               gs \<leftarrow> par ''GP_sigma'';
               va \<leftarrow> set_item v 0 (ln (gs ^ 2));
               al \<leftarrow> par ''GP_alpha'';
               vb \<leftarrow> set_item va 1 (ln (1 / al));
               ga \<leftarrow> par ''GP_Gamma'';
               vc \<leftarrow> set_item vb 2 ga;
               pr \<leftarrow> par ''GP_Prot'';
               set_item vc 3 (ln pr)
             }
           else Some v);
        (if rv_GPType cfg = ''CeleriteQPKernel'' then
           do {
             gb \<leftarrow> par ''GP_B'';
             va \<leftarrow> set_item v1 0 (ln gb);
             gl \<leftarrow> par ''GP_L'';
             vb \<leftarrow> set_item va 1 (ln gl);
             pr \<leftarrow> par ''GP_Prot'';
             vc \<leftarrow> set_item vb 2 (ln pr);
             gc \<leftarrow> par ''GP_C'';
             set_item vc 3 (ln gc)
           }
         else Some v1)
      })"

subsection \<open>Photometric likelihood (lines 736 to 786)\<close>

text \<open>The body of the loop over \<^verbatim>\<open>inames_lc\<close>; the local variable is \<^verbatim>\<open>log_likelihood\<close>.\<close>

definition lc_residuals :: "config \<Rightarrow> registry \<Rightarrow> real list option \<Rightarrow> string \<Rightarrow> real list option" where
  "lc_residuals cfg pri model_opt instrument =
     do {
       m \<leftarrow> model_opt;
       cur \<leftarrow> gather m (indexes (lc_dictionary cfg instrument));
       dil \<leftarrow> cvalue_of pri (''mdilution_'' @ instrument);
       fl \<leftarrow> cvalue_of pri (''mflux_'' @ instrument);
       f \<leftarrow> gather (f_lc cfg) (indexes (lc_dictionary cfg instrument));
       broadcast2 (\<lambda>x y. x - y) f (map (\<lambda>x. x * dil + fl) cur)
     }"

definition lc_likelihood :: "config \<Rightarrow> real list option \<Rightarrow> string \<Rightarrow> real \<Rightarrow> store \<Rightarrow> (real, store) flow" where
  "lc_likelihood cfg model_opt instrument log_likelihood s =
     (case lc_residuals cfg (priors s) model_opt instrument of
        None \<Rightarrow> Exn
      | Some residuals \<Rightarrow>
          if \<not> GPDetrend (lc_dictionary cfg instrument) then
            lift_opt
              (do {
                 err \<leftarrow> gather (ferr_lc cfg) (indexes (lc_dictionary cfg instrument));
                 sw \<leftarrow> cvalue_of (priors s) (''sigma_w_'' @ instrument);
                 g \<leftarrow> gaussian_log_likelihood residuals err (sw * (1 / 10 ^ 6));
                 Some (log_likelihood + g)
               }) s
          else
            (case lc_gp_vector cfg (priors s) instrument (lc_GPVector s instrument) of
               None \<Rightarrow> Exn
             | Some v \<Rightarrow>
                 lift_opt
                   (do {
                      g \<leftarrow> lc_gp_log_likelihood cfg instrument v residuals;
                      Some (log_likelihood + g)
                    }) (s\<lparr>lc_GPVector := (lc_GPVector s)(instrument := v)\<rparr>)))"

text \<open>The stellar density term (lines 784 to 786) reads the locals \<^verbatim>\<open>P\<close> and \<^verbatim>\<open>a\<close> left by
  the photometric loops.\<close>

definition stellar_density_term :: "config \<Rightarrow> (real \<times> real) option \<Rightarrow> real \<Rightarrow> real option" where
  "stellar_density_term cfg aP log_likelihood =
     (if stellar_density cfg \<and> \<not> fitrho cfg then
        do {
          (a, P) \<leftarrow> aP;
          let model = ((3 * pi) / (G * (P * (24 * 3600)) ^ 2)) * a ^ 3;
          Some (log_likelihood +
                - 0.5 * (ln (2 * pi) + 2 * ln (sd_sigma cfg) + ((model - sd_mean cfg) / sd_sigma cfg) ^ 2))
        }
      else Some log_likelihood)"


subsection \<open>Radial-velocity model (lines 789 to 846)\<close>

text \<open>The body of the loop over \<^verbatim>\<open>n in range(n_rv)\<close> that fills \<^verbatim>\<open>radvel_params\<close>.\<close>

definition rv_planet :: "config \<Rightarrow> nat \<Rightarrow> unit \<Rightarrow> store \<Rightarrow> (unit, store) flow" where
  "rv_planet cfg n loc s =
     (case nth_opt (numbering_rv cfg) n of
        None \<Rightarrow> Exn
      | Some i \<Rightarrow>
     (case do {
             K \<leftarrow> cvalue_of (priors s) (''K_p'' @ str_nat i);
             t0 \<leftarrow> cvalue_of (priors s) (''t0_p'' @ str_nat i);
             P \<leftarrow> cvalue_of (priors s) (''P_p'' @ str_nat i);
             (e, omega) \<leftarrow> resolve_ecc_rv cfg (priors s) i;
             Some (K, t0, P, e, omega)
           } of
        None \<Rightarrow> Exn
      | Some (K, t0, P, e, omega) \<Rightarrow>
          if e > 1 then Ret floor_value s
          else
            Go () (s\<lparr>radvel_params := (radvel_params s)
                      (''per'' @ str_nat (n + 1) \<mapsto> P,
                       ''tc'' @ str_nat (n + 1) \<mapsto> t0,
                       ''w'' @ str_nat (n + 1) \<mapsto> omega,
                       ''e'' @ str_nat (n + 1) \<mapsto> e,
                       ''k'' @ str_nat (n + 1) \<mapsto> K)\<rparr>)))"

text \<open>The result is the local array \<^verbatim>\<open>rvmodel\<close>, unbound when there is no
  radial-velocity file.\<close>

definition rv_section :: "config \<Rightarrow> store \<Rightarrow> (real list option, store) flow" where
  "rv_section cfg s =
     (if rvfilename cfg then
        then_do (period_gate (numbering_rv cfg) (n_rv cfg) s)
          (\<lambda>cP s1.
             then_do (for_each (rv_planet cfg) [0..<n_rv cfg] () s1)
               (\<lambda>u s2. Go (Some (rv_model cfg (radvel_params s2))) s2))
      else Go None s)"

text \<open>\<^verbatim>\<open>rvmodel += trend\<close>: an addition in place keeps the shape of \<^verbatim>\<open>rvmodel\<close>.\<close>

definition add_in_place :: "real list \<Rightarrow> real list \<Rightarrow> real list option" where
  "add_in_place xs ys =
     (if length ys = length xs then Some (map2 (\<lambda>x y. x + y) xs ys)
      else if length ys = 1 then Some (map (\<lambda>x. x + hd ys) xs)
      else None)"

definition rv_trend :: "config \<Rightarrow> registry \<Rightarrow> real list option \<Rightarrow> real list option option" where
  "rv_trend cfg pri rvmodel =
     do {
       m1 \<leftarrow>
         (if fitrvline cfg then
            do {
              aline \<leftarrow> cvalue_of pri ''rv_slope'';
              tzero \<leftarrow> cvalue_of pri ''rv_tzero'';
              let bline = - tzero * aline;
              m \<leftarrow> rvmodel;
              m' \<leftarrow> add_in_place m (map (\<lambda>t. aline * t + bline) (t_rv cfg));
              Some (Some m')
            }
          else Some rvmodel);
       (if fitrvquad cfg then
          do {
            qquad \<leftarrow> cvalue_of pri ''rv_quad'';
            aline \<leftarrow> cvalue_of pri ''rv_slope'';
            tzero \<leftarrow> cvalue_of pri ''rv_tzero'';
            let bline = - tzero * aline - (tzero ^ 2) * qquad;
            m \<leftarrow> m1;
            m' \<leftarrow> add_in_place m (map (\<lambda>t. qquad * (t ^ 2) + aline * t + bline) (t_rv cfg));
            Some (Some m')
          }
        else Some m1)
     }"

subsection \<open>Radial-velocity likelihood (lines 848 to 885)\<close>

definition rv_residuals :: "config \<Rightarrow> registry \<Rightarrow> real list option \<Rightarrow> string \<Rightarrow> real list option" where
  "rv_residuals cfg pri rvmodel instrument =
     do {
       rv \<leftarrow> gather (rv_rv cfg) (instrument_indexes_rv cfg instrument);
       m \<leftarrow> rvmodel;
       cur \<leftarrow> gather m (instrument_indexes_rv cfg instrument);
       mu \<leftarrow> cvalue_of pri (''mu_'' @ instrument);
       broadcast2 (\<lambda>x y. x - y) rv (map (\<lambda>x. x + mu) cur)
     }"

text \<open>The body of the loop over \<^verbatim>\<open>inames_rv\<close>.\<close>

definition rv_likelihood :: "config \<Rightarrow> real list option \<Rightarrow> string \<Rightarrow> real \<Rightarrow> store \<Rightarrow> (real, store) flow" where
  "rv_likelihood cfg rvmodel instrument log_likelihood s =
     (case rv_residuals cfg (priors s) rvmodel instrument of
        None \<Rightarrow> Exn
      | Some residuals \<Rightarrow>
          if \<not> rveparamfile cfg then
            lift_opt
              (do {
                 err \<leftarrow> gather (rverr_rv cfg) (instrument_indexes_rv cfg instrument);
                 sw \<leftarrow> cvalue_of (priors s) (''sigma_w_rv_'' @ instrument);
                 g \<leftarrow> gaussian_log_likelihood residuals err sw;
                 Some (log_likelihood + g)
               }) s
          else
            (case do {
                    r \<leftarrow> scatter (rvresiduals s) (instrument_indexes_rv cfg instrument) residuals;
                    err \<leftarrow> gather (rverr_rv cfg) (instrument_indexes_rv cfg instrument);
                    sw \<leftarrow> cvalue_of (priors s) (''sigma_w_rv_'' @ instrument);
                    re \<leftarrow> scatter (rvresiduals_err s) (instrument_indexes_rv cfg instrument)
                            (map (\<lambda>x. sqrt (x ^ 2 + sw ^ 2)) err);
                    Some (r, re)
                  } of
               None \<Rightarrow> Exn
             | Some (r, re) \<Rightarrow> Go log_likelihood (s\<lparr>rvresiduals := r, rvresiduals_err := re\<rparr>)))"

definition rv_gp :: "config \<Rightarrow> real \<Rightarrow> store \<Rightarrow> (real, store) flow" where
  "rv_gp cfg log_likelihood s =
     (if rveparamfile cfg then
        (if \<not> rvfilename cfg then Exn
         else
           (case rv_gp_vector cfg (priors s) (rv_GPVector s) of
              None \<Rightarrow> Exn
            | Some v \<Rightarrow>
                lift_opt
                  (do {
                     g \<leftarrow> rv_gp_log_likelihood cfg v (rvresiduals_err s) (rvresiduals s);
                     Some (log_likelihood + g)
                   }) (s\<lparr>rv_GPVector := v\<rparr>)))
      else Go log_likelihood s)"

subsection \<open>The aggregator (lines 645 to 888)\<close>

text \<open>The result \<open>Go v s\<close> is the final \<^verbatim>\<open>return log_likelihood\<close> with value \<open>v\<close>; the
  result \<open>Ret v s\<close> is one of the early returns.\<close>

definition photometric_part :: "config \<Rightarrow> store \<Rightarrow> (real, store) flow" where
  "photometric_part cfg s =
     then_do (photometric_section cfg s)
       (\<lambda>loc s1.
     then_do (for_each (lc_likelihood cfg (lcmodel loc)) (inames_lc cfg) 0 s1)
       (\<lambda>ll s2. lift_opt (stellar_density_term cfg (last_aP loc) ll) s2))"

definition rv_part :: "config \<Rightarrow> real \<Rightarrow> store \<Rightarrow> (real, store) flow" where
  "rv_part cfg log_likelihood s =
     then_do (rv_section cfg s)
       (\<lambda>rvmodel s1.
     then_do (lift_opt (rv_trend cfg (priors s1) rvmodel) s1)
       (\<lambda>rvmodel' s2.
     then_do (for_each (rv_likelihood cfg rvmodel') (inames_rv cfg) log_likelihood s2)
       (rv_gp cfg)))"

definition loglike :: "config \<Rightarrow> real list \<Rightarrow> store \<Rightarrow> (real, store) flow" where
  "loglike cfg cube s0 =
     (case assign_cvalues (priors s0) cube 0 of
        None \<Rightarrow> Exn
      | Some pri \<Rightarrow> then_do (photometric_part cfg (s0\<lparr>priors := pri\<rparr>)) (rv_part cfg))"

text \<open>The float handed back to the sampler.\<close>

definition returned :: "(real, store) flow \<Rightarrow> real option" where
  "returned r = (case r of Exn \<Rightarrow> None | Ret v s \<Rightarrow> Some v | Go v s \<Rightarrow> Some v)"

definition final_store :: "(real, store) flow \<Rightarrow> store option" where
  "final_store r = (case r of Exn \<Rightarrow> None | Ret v s \<Rightarrow> Some s | Go v s \<Rightarrow> Some s)"


subsection \<open>The prior transform (lines 586 to 596 and 622 to 633)\<close>

text \<open>
  The transforms of the module \<^verbatim>\<open>utils\<close> are not part of \<^verbatim>\<open>juliet.py\<close>; they are
  parameters of the model. A Python function that reaches its end without a \<^verbatim>\<open>return\<close>
  hands back the object \<^verbatim>\<open>None\<close>, here \<open>PyNone\<close>.
\<close>

record utils =
  transform_uniform :: "real \<Rightarrow> real \<Rightarrow> real \<Rightarrow> real"
  transform_normal :: "real \<Rightarrow> real \<Rightarrow> real \<Rightarrow> real"
  transform_loguniform :: "real \<Rightarrow> real \<Rightarrow> real \<Rightarrow> real"
  transform_beta :: "real \<Rightarrow> real \<Rightarrow> real \<Rightarrow> real"
  transform_exponential :: "real \<Rightarrow> real"

datatype pyval = PyNone | PyFloat real

text \<open>\<open>None\<close> is the IndexError of \<^verbatim>\<open>pinfo['value'][0]\<close> or \<^verbatim>\<open>pinfo['value'][1]\<close>.\<close>

definition transform_prior :: "utils \<Rightarrow> real \<Rightarrow> prior_info \<Rightarrow> pyval option" where
  "transform_prior U val pinfo =
     (let two = (\<lambda>f. do {
                   v0 \<leftarrow> nth_opt (pvalue pinfo) 0;
                   v1 \<leftarrow> nth_opt (pvalue pinfo) 1;
                   Some (PyFloat (f val v0 v1))
                 }) in
      if ptype pinfo = ''uniform'' then two (transform_uniform U)
      else if ptype pinfo = ''normal'' then two (transform_normal U)
      else if ptype pinfo = ''jeffreys'' then two (transform_loguniform U)
      else if ptype pinfo = ''beta'' then two (transform_beta U)
      else if ptype pinfo = ''exponential'' then Some (PyFloat (transform_exponential U val))
      else Some PyNone)"

text \<open>
  The array that \<^verbatim>\<open>prior\<close> writes holds 64-bit floats, never Python objects: under dynesty
  it is \<^verbatim>\<open>transformed_priors\<close>, which \<^verbatim>\<open>np.zeros(n_params)\<close> creates (line 622); otherwise
  it is \<^verbatim>\<open>cube\<close> itself, the buffer of C doubles that MultiNest hands over. A cell holds a
  number or not-a-number. Assigning a float stores it. Assigning \<^verbatim>\<open>None\<close> stores
  not-a-number in the numpy array and raises TypeError on the buffer of C doubles. An index
  past the end of the array raises IndexError.
\<close>

datatype py_error = IndexError | TypeError

datatype cell = Val real | NaN

definition set_cell :: "bool \<Rightarrow> cell list \<Rightarrow> nat \<Rightarrow> pyval \<Rightarrow> py_error + cell list" where
  "set_cell use_dynesty target i v =
     (if \<not> i < length target then Inl IndexError
      else case v of
             PyFloat x \<Rightarrow> Inr (target[i := Val x])
           | PyNone \<Rightarrow> if use_dynesty then Inr (target[i := NaN]) else Inl TypeError)"

text \<open>
  The loop of \<^verbatim>\<open>prior\<close>, on the array \<open>target\<close> that it writes. The right-hand side of the
  assignment is evaluated first. \<^verbatim>\<open>cube[pcounter]\<close> is read before the cell \<^verbatim>\<open>pcounter\<close> is
  written, and the later reads are at larger indexes, so every read sees the input \<open>cube\<close>,
  also when \<open>target\<close> is \<^verbatim>\<open>cube\<close> itself. A read past the end of \<open>cube\<close> is IndexError (the
  buffer of MultiNest has no bound of its own; the model takes the length of the list).
\<close>

fun prior_values ::
  "utils \<Rightarrow> bool \<Rightarrow> registry \<Rightarrow> real list \<Rightarrow> nat \<Rightarrow> cell list \<Rightarrow> py_error + cell list" where
  "prior_values U use_dynesty [] cube pcounter target = Inr target"
| "prior_values U use_dynesty ((pname, info) # rest) cube pcounter target =
     (if ptype info \<noteq> ''fixed'' then
        (case nth_opt cube pcounter of
           None \<Rightarrow> Inl IndexError
         | Some x \<Rightarrow>
             (case transform_prior U x info of
                None \<Rightarrow> Inl IndexError
              | Some v \<Rightarrow>
                  (case set_cell use_dynesty target pcounter v of
                     Inl err \<Rightarrow> Inl err
                   | Inr target' \<Rightarrow> prior_values U use_dynesty rest cube (pcounter + 1) target')))
      else prior_values U use_dynesty rest cube pcounter target)"

text \<open>
  \<^verbatim>\<open>prior\<close> on the module-level array \<^verbatim>\<open>transformed_priors\<close>, whose length is \<^verbatim>\<open>n_params\<close>.
  The result is the array after the loop: under dynesty the array \<^verbatim>\<open>transformed_priors\<close>,
  which the function returns and which keeps its content between the calls; otherwise the
  content of \<^verbatim>\<open>cube\<close>, which MultiNest reads back.
\<close>

definition prior ::
  "utils \<Rightarrow> bool \<Rightarrow> registry \<Rightarrow> real list \<Rightarrow> cell list \<Rightarrow> py_error + cell list" where
  "prior U use_dynesty pri cube transformed_priors =
     prior_values U use_dynesty pri cube 0
       (if use_dynesty then transformed_priors else map Val cube)"

subsection \<open>Set-up of the registry (line 249)\<close>

text \<open>The kinds that \<^verbatim>\<open>transform_prior\<close> tests for.\<close>

definition supported_kinds :: "string set" where
  "supported_kinds = {''uniform'', ''normal'', ''jeffreys'', ''beta'', ''exponential''}"

text \<open>
  Modelled from the spec: the function \<^verbatim>\<open>readpriors\<close> of the module \<^verbatim>\<open>utils\<close>, which reads
  the prior file at set-up (line 249) and hands back the registry and the number of free
  parameters, is missing from the sources. By sections 4.1 and 7 of the specification an
  unsupported distribution kind is a fatal configuration error raised at set-up, fixed
  parameters are not free, and \<^verbatim>\<open>n_params\<close> is the number of free parameters. So
  \<^verbatim>\<open>readpriors\<close>, on the entries of the prior file in order, aborts at the first parameter
  that is not fixed and whose kind is none of the supported ones (the log-uniform kind is
  spelled \<^verbatim>\<open>'jeffreys'\<close>, line 591), and otherwise hands back the entries and the number of
  those that are not fixed. The planet counts and numberings that line 249 also receives
  are fields of \<open>config\<close>.
\<close>

datatype config_error = UnsupportedKind string string

definition readpriors :: "registry \<Rightarrow> config_error + registry \<times> nat" where
  "readpriors entries =
     (case find (\<lambda>e. ptype (snd e) \<notin> insert ''fixed'' supported_kinds) entries of
        Some e \<Rightarrow> Inl (UnsupportedKind (fst e) (ptype (snd e)))
      | None \<Rightarrow> Inr (entries, length (filter (\<lambda>e. ptype (snd e) \<noteq> ''fixed'') entries)))"

subsection \<open>Example configurations\<close>

text \<open>
  Concrete inputs on which the theorems below are instantiated. \<open>base_config\<close> is a run
  without data files; the other configurations switch on the parts they need. In every
  example the external libraries are constant functions.
\<close>

definition sampled :: "string \<Rightarrow> real \<Rightarrow> string \<times> prior_info" where
  "sampled k v = (k, \<lparr>ptype = ''uniform'', pvalue = [0, 1], cvalue = v\<rparr>)"

definition base_config :: config where
  "base_config =
     \<lparr>lcfilename = False, rvfilename = False, rveparamfile = False,
      n_transit = 0, n_rv = 0, numbering_transit = [], numbering_rv = [],
      efficient_bp = False, pl = 0, pu = 1, fitrho = False,
      stellar_density = False, sd_mean = 0, sd_sigma = 1,
      fitrvline = False, fitrvquad = False,
      ecc_parametrization_transit = Map.empty, ecc_parametrization_rv = Map.empty,
      inames_lc = [], inames_rv = [],
      lc_dictionary = (\<lambda>instrument. \<lparr>ldlaw = ''linear'', GPDetrend = False, GPType = [],
                         nX = 0, GP_group = Map.empty, indexes = [0]\<rparr>),
      instrument_indexes_rv = (\<lambda>instrument. [0]),
      lcones = [1], f_lc = [1], ferr_lc = [1], t_rv = [0], rv_rv = [0], rverr_rv = [1],
      rv_GPType = [], rv_GP_group = Map.empty,
      light_curve = (\<lambda>instrument params. [1]),
      rv_model = (\<lambda>params. [0]),
      lc_gp_log_likelihood = (\<lambda>instrument v r. None),
      rv_gp_log_likelihood = (\<lambda>v e r. None)\<rparr>"

definition base_store :: store where
  "base_store =
     \<lparr>priors = [],
      lc_params = (\<lambda>instrument. \<lparr>bm_t0 = 0, bm_per = 1, bm_rp = 1 / 10, bm_a = 15,
                     bm_inc = 87, bm_ecc = 0, bm_w = 90, bm_u = [1 / 2]\<rparr>),
      lc_GPVector = (\<lambda>instrument. []), radvel_params = Map.empty,
      rvresiduals = [0], rvresiduals_err = [0], rv_GPVector = []\<rparr>"

definition bp_config :: config where
  "bp_config = base_config\<lparr>efficient_bp := True\<rparr>"

definition bp_registry :: "real \<Rightarrow> real \<Rightarrow> registry" where
  "bp_registry r1 r2 =
     [sampled ''a_p1'' 15, sampled ''r1_p1'' r1, sampled ''r2_p1'' r2,
      sampled ''t0_p1'' 2, sampled ''P_p1'' 3]"

definition ecc_config :: config where
  "ecc_config = base_config\<lparr>ecc_parametrization_transit := [1 \<mapsto> 1, 2 \<mapsto> 2],
                             ecc_parametrization_rv := [1 \<mapsto> 1, 2 \<mapsto> 2]\<rparr>"

definition ecc_registry :: registry where
  "ecc_registry =
     [sampled ''ecosomega_p1'' 0, sampled ''esinomega_p1'' (1 / 2),
      sampled ''secosomega_p2'' 0, sampled ''sesinomega_p2'' (1 / 2)]"

definition transit3_config :: config where
  "transit3_config = base_config\<lparr>lcfilename := True, n_transit := 3, numbering_transit := [1, 2, 3],
      ecc_parametrization_transit := [1 \<mapsto> 0, 2 \<mapsto> 0, 3 \<mapsto> 0], inames_lc := [''TESS'']\<rparr>"

definition rv2_config :: config where
  "rv2_config = base_config\<lparr>rvfilename := True, n_rv := 2, numbering_rv := [1, 2],
      ecc_parametrization_rv := [1 \<mapsto> 0, 2 \<mapsto> 0], inames_rv := [''HARPS'']\<rparr>"

definition period_registry :: "nat \<Rightarrow> registry" where
  "period_registry n = map (\<lambda>i. sampled (''P_p'' @ str_nat i) 0) [1..<Suc n]"

definition lc1_config :: config where
  "lc1_config = base_config\<lparr>lcfilename := True, n_transit := 1, numbering_transit := [1],
      ecc_parametrization_transit := [1 \<mapsto> 0], inames_lc := [''TESS'']\<rparr>"

definition lc1_registry :: registry where
  "lc1_registry = map (\<lambda>k. sampled k 0)
     [''P_p1'', ''t0_p1'', ''a_p1'', ''b_p1'', ''p_p1'', ''ecc_p1'', ''omega_p1'',
      ''q1_TESS'', ''mdilution_TESS'', ''mflux_TESS'', ''sigma_w_TESS'']"

text \<open>A sample of \<open>lc1_registry\<close> with period \<open>P\<close>, eccentricity \<open>e\<close> and impact parameter
  \<open>b\<close>; the other values are \<open>t0 = 0\<close>, \<open>a = 15\<close>, \<open>p = 0.1\<close>, \<open>\<omega> = 90\<close>, \<open>q1 = 0.5\<close>, dilution
  \<open>1\<close>, flux offset \<open>0\<close> and jitter \<open>0\<close>.\<close>

definition lc1_cube :: "real \<Rightarrow> real \<Rightarrow> real \<Rightarrow> real list" where
  "lc1_cube P e b = [P, 0, 15, b, 1 / 10, e, 90, 1 / 2, 1, 0, 0]"

definition rv1_config :: config where
  "rv1_config = base_config\<lparr>rvfilename := True, n_rv := 1, numbering_rv := [1],
      ecc_parametrization_rv := [1 \<mapsto> 0], inames_rv := [''HARPS'']\<rparr>"

definition rv1_registry :: registry where
  "rv1_registry = map (\<lambda>k. sampled k 0)
     [''P_p1'', ''t0_p1'', ''K_p1'', ''ecc_p1'', ''omega_p1'', ''mu_HARPS'', ''sigma_w_rv_HARPS'']"

text \<open>A sample of \<open>rv1_registry\<close> with eccentricity \<open>e\<close>; the other values are \<open>P = 3\<close>,
  \<open>t0 = 0\<close>, \<open>K = 1\<close>, \<open>\<omega> = 0\<close>, systemic velocity \<open>0\<close> and jitter \<open>0\<close>.\<close>

definition rv1_cube :: "real \<Rightarrow> real list" where
  "rv1_cube e = [3, 0, 1, e, 0, 0, 0]"

text \<open>The registries that the two samples leave.\<close>

definition lc1_sample :: "real \<Rightarrow> real \<Rightarrow> real \<Rightarrow> registry" where
  "lc1_sample P e b =
     [sampled ''P_p1'' P, sampled ''t0_p1'' 0, sampled ''a_p1'' 15, sampled ''b_p1'' b,
      sampled ''p_p1'' (1 / 10), sampled ''ecc_p1'' e, sampled ''omega_p1'' 90,
      sampled ''q1_TESS'' (1 / 2), sampled ''mdilution_TESS'' 1, sampled ''mflux_TESS'' 0,
      sampled ''sigma_w_TESS'' 0]"

definition rv1_sample :: "real \<Rightarrow> registry" where
  "rv1_sample e =
     [sampled ''P_p1'' 3, sampled ''t0_p1'' 0, sampled ''K_p1'' 1, sampled ''ecc_p1'' e,
      sampled ''omega_p1'' 0, sampled ''mu_HARPS'' 0, sampled ''sigma_w_rv_HARPS'' 0]"

definition lcrv_config :: config where
  "lcrv_config = base_config\<lparr>lcfilename := True, n_transit := 1, numbering_transit := [1],
      ecc_parametrization_transit := [1 \<mapsto> 0], inames_lc := [''TESS''],
      rvfilename := True, n_rv := 2, numbering_rv := [1, 2],
      ecc_parametrization_rv := [1 \<mapsto> 0, 2 \<mapsto> 0], inames_rv := [''HARPS'']\<rparr>"

definition lcrv_names :: "string list" where
  "lcrv_names =
     [''P_p1'', ''t0_p1'', ''a_p1'', ''b_p1'', ''p_p1'', ''ecc_p1'', ''omega_p1'',
      ''q1_TESS'', ''mdilution_TESS'', ''mflux_TESS'', ''sigma_w_TESS'', ''K_p1'',
      ''P_p2'', ''t0_p2'', ''K_p2'', ''ecc_p2'', ''omega_p2'', ''mu_HARPS'', ''sigma_w_rv_HARPS'']"

text \<open>A sample in which the second planet, seen in radial velocities only, has the
  eccentricity \<open>1.5\<close>.\<close>

definition lcrv_cube :: "real list" where
  "lcrv_cube = [3, 0, 15, 0, 1 / 10, 0, 90, 1 / 2, 1, 0, 0, 1, 5, 0, 1, 3 / 2, 0, 0, 0]"

definition lcrv_store :: store where
  "lcrv_store = base_store\<lparr>priors := map (\<lambda>k. sampled k 0) lcrv_names\<rparr>"

text \<open>The store that the rejected sample leaves behind.\<close>

definition lcrv_rejected :: store where
  "lcrv_rejected = base_store
     \<lparr>priors := map2 sampled lcrv_names lcrv_cube,
      lc_params := (lc_params base_store)(''TESS'' :=
         \<lparr>bm_t0 = 0, bm_per = 3, bm_rp = 1 / 10, bm_a = 15, bm_inc = 90,
          bm_ecc = 0, bm_w = 90, bm_u = [1 / 2]\<rparr>),
      radvel_params := [''per1'' \<mapsto> 3, ''tc1'' \<mapsto> 0, ''w1'' \<mapsto> pi / 2, ''e1'' \<mapsto> 0, ''k1'' \<mapsto> 1]\<rparr>"

definition celerite_groups :: "string \<Rightarrow> string \<rightharpoonup> string" where
  "celerite_groups g = [''GP_B'' \<mapsto> g, ''GP_L'' \<mapsto> g, ''GP_Prot'' \<mapsto> g, ''GP_C'' \<mapsto> g]"

definition celerite_lc_config :: config where
  "celerite_lc_config = base_config\<lparr>lcfilename := True, inames_lc := [''TESS''],
      lc_dictionary := (\<lambda>instrument. \<lparr>ldlaw = ''quadratic'', GPDetrend = True,
         GPType = ''CeleriteQPKernel'', nX = 1, GP_group = celerite_groups ''TESS'', indexes = [0]\<rparr>)\<rparr>"

definition celerite_rv_config :: config where
  "celerite_rv_config = base_config\<lparr>rvfilename := True, rveparamfile := True, inames_rv := [''HARPS''],
      rv_GPType := ''CeleriteQPKernel'', rv_GP_group := celerite_groups ''rv''\<rparr>"

text \<open>The hyperparameters \<open>B = 2\<close>, \<open>L = 5\<close>, \<open>Prot = 3\<close>, \<open>C = 1\<close> of the group \<open>g\<close>, and a
  photometric jitter of \<open>100\<close> ppm.\<close>

definition celerite_registry :: "string \<Rightarrow> registry" where
  "celerite_registry g =
     [sampled (''GP_B_'' @ g) 2, sampled (''GP_L_'' @ g) 5, sampled (''GP_Prot_'' @ g) 3,
      sampled (''GP_C_'' @ g) 1, sampled ''sigma_w_TESS'' 100]"

text \<open>
  Modelled from the spec: the transforms of \<^verbatim>\<open>utils\<close> are missing from the sources. The
  uniform, log-uniform and exponential transforms follow section 4.1 of the specification
  (the exponential one with scale \<open>1\<close>, since \<^verbatim>\<open>transform_prior\<close> passes no scale); the normal
  and beta transforms, inverse distribution functions without a closed form, are replaced
  by stand-ins that return the mean \<open>m\<close> and \<open>a / (a + b)\<close>.
\<close>

definition example_utils :: utils where
  "example_utils =
     \<lparr>transform_uniform = (\<lambda>u lo hi. lo + u * (hi - lo)),
      transform_normal = (\<lambda>u m sd. m),
      transform_loguniform = (\<lambda>u lo hi. exp (ln lo + u * (ln hi - ln lo))),
      transform_beta = (\<lambda>u a b. a / (a + b)),
      transform_exponential = (\<lambda>u. - ln (1 - u))\<rparr>"

definition kind_entry :: "string \<Rightarrow> string \<Rightarrow> real \<Rightarrow> real \<Rightarrow> string \<times> prior_info" where
  "kind_entry name kind v0 v1 = (name, \<lparr>ptype = kind, pvalue = [v0, v1], cvalue = 0\<rparr>)"

text \<open>A registry with one parameter of each supported kind and a fixed one, and a registry
  whose second parameter has the kind \<^verbatim>\<open>'loguniform'\<close>, which \<^verbatim>\<open>transform_prior\<close> does not
  know (the log-uniform kind is spelled \<^verbatim>\<open>'jeffreys'\<close>).\<close>

definition supported_registry :: registry where
  "supported_registry =
     [kind_entry ''P_p1'' ''uniform'' 1 3, kind_entry ''t0_p1'' ''normal'' 2 1,
      (''q1_TESS'', \<lparr>ptype = ''fixed'', pvalue = [1 / 2], cvalue = 1 / 2\<rparr>),
      kind_entry ''K_p1'' ''jeffreys'' 1 1, kind_entry ''ecc_p1'' ''beta'' 1 3,
      kind_entry ''sigma_w_TESS'' ''exponential'' 0 0]"

definition unsupported_registry :: registry where
  "unsupported_registry =
     [kind_entry ''P_p1'' ''uniform'' 1 3, kind_entry ''K_p1'' ''loguniform'' 1 100]"

subsection \<open>Predicates used in the statements\<close>

text \<open>An outcome keeps the registry \<open>pri\<close> when the store it carries holds \<open>pri\<close>, and an
  early return carries the floor value.\<close>

definition keeps_priors :: "registry \<Rightarrow> ('a, store) flow \<Rightarrow> bool" where
  "keeps_priors pri r =
     (case r of Exn \<Rightarrow> True | Ret v s \<Rightarrow> priors s = pri \<and> v = floor_value | Go x s \<Rightarrow> priors s = pri)"

section \<open>Properties\<close>

subsection \<open>Control flow\<close>

lemma then_do_simps [simp]:
  "then_do Exn f = Exn"
  "then_do (Ret v s) f = Ret v s"
  "then_do (Go x s) f = f x s"
  by (simp_all add: then_do_def)

lemma lift_opt_simps [simp]:
  "lift_opt None s = Exn"
  "lift_opt (Some x) s = Go x s"
  by (simp_all add: lift_opt_def)

lemma lift_opt_not_Ret [simp]: "lift_opt m s \<noteq> Ret v s'"
  by (cases m) simp_all

lemma lift_opt_Go: "lift_opt m s = Go x s' \<Longrightarrow> s' = s \<and> m = Some x"
  by (cases m) simp_all

lemma then_do_Ret:
  "then_do m f = Ret v s' \<Longrightarrow> m = Ret v s' \<or> (\<exists>x s. m = Go x s \<and> f x s = Ret v s')"
  by (cases m) simp_all

lemma then_do_Go:
  "then_do m f = Go y s' \<Longrightarrow> \<exists>x s. m = Go x s \<and> f x s = Go y s'"
  by (cases m) simp_all

lemma for_each_append:
  "for_each body (xs @ ys) loc s = then_do (for_each body xs loc s) (for_each body ys)"
  by (induction xs arbitrary: loc s) (simp_all split: flow.splits)

lemma for_each_Ret_prefix:
  "for_each body xs loc s = Ret v s' \<Longrightarrow>
     \<exists>ys x zs loc1 s1. xs = ys @ x # zs \<and> for_each body ys loc s = Go loc1 s1 \<and> body x loc1 s1 = Ret v s'"
proof (induction xs arbitrary: loc s)
  case Nil
  then show ?case by simp
next
  case (Cons x xs)
  show ?case
  proof (cases "body x loc s")
    case Exn
    with Cons.prems show ?thesis by simp
  next
    case (Ret w t)
    with Cons.prems have "w = v" "t = s'" by simp_all
    with Ret have "x # xs = [] @ x # xs \<and> for_each body [] loc s = Go loc s \<and> body x loc s = Ret v s'"
      by simp
    then show ?thesis by blast
  next
    case (Go loc2 s2)
    with Cons.prems have "for_each body xs loc2 s2 = Ret v s'" by simp
    from Cons.IH [OF this] obtain ys y zs loc1 s1 where
      h: "xs = ys @ y # zs" "for_each body ys loc2 s2 = Go loc1 s1" "body y loc1 s1 = Ret v s'"
      by blast
    with Go have "x # xs = (x # ys) @ y # zs \<and> for_each body (x # ys) loc s = Go loc1 s1
        \<and> body y loc1 s1 = Ret v s'"
      by simp
    then show ?thesis by blast
  qed
qed

text \<open>An invariant of the store kept by every iteration is kept by the loop, and a
  property of the values returned early by the body holds of the loop's early return.\<close>

lemma for_each_invariant:
  assumes go: "\<And>x loc s loc' s'. I s \<Longrightarrow> body x loc s = Go loc' s' \<Longrightarrow> I s'"
    and ret: "\<And>x loc s v s'. I s \<Longrightarrow> body x loc s = Ret v s' \<Longrightarrow> I s' \<and> Q v"
    and init: "I s"
  shows "(for_each body xs loc s = Go loc' s' \<longrightarrow> I s')
       \<and> (for_each body xs loc s = Ret v s' \<longrightarrow> I s' \<and> Q v)"
  using init
proof (induction xs arbitrary: loc s)
  case Nil
  then show ?case by auto
next
  case (Cons x xs)
  show ?case
  proof (cases "body x loc s")
    case Exn
    then show ?thesis by simp
  next
    case (Ret w t)
    with ret [OF Cons.prems Ret] show ?thesis by auto
  next
    case (Go loc2 s2)
    from go [OF Cons.prems Go] have "I s2" .
    from Cons.IH [OF this] Go show ?thesis by simp
  qed
qed

text \<open>An iteration that never falls through blocks the loop.\<close>

lemma for_each_blocked:
  assumes mem: "x \<in> set xs"
    and blk: "\<And>loc s loc' s'. I s \<Longrightarrow> body x loc s \<noteq> Go loc' s'"
    and go: "\<And>y loc s loc' s'. I s \<Longrightarrow> body y loc s = Go loc' s' \<Longrightarrow> I s'"
    and init: "I s"
  shows "for_each body xs loc s \<noteq> Go loc' s'"
  using mem init
proof (induction xs arbitrary: loc s)
  case Nil
  then show ?case by simp
next
  case (Cons y ys)
  show ?case
  proof (cases "body y loc s")
    case Exn
    then show ?thesis by simp
  next
    case (Ret w t)
    then show ?thesis by simp
  next
    case (Go loc2 s2)
    from go [OF Cons.prems(2) Go] have i2: "I s2" .
    have "y \<noteq> x" using blk [OF Cons.prems(2)] Go by auto
    with Cons.prems(1) have "x \<in> set ys" by simp
    from Cons.IH [OF this i2] Go show ?thesis by simp
  qed
qed

subsection \<open>The registry is written once per evaluation\<close>

lemma keeps_priors_simps [simp]:
  "keeps_priors pri Exn"
  "keeps_priors pri (Ret v s) \<longleftrightarrow> priors s = pri \<and> v = floor_value"
  "keeps_priors pri (Go x s) \<longleftrightarrow> priors s = pri"
  by (simp_all add: keeps_priors_def)

lemma keeps_priors_lift_opt: "priors s = pri \<Longrightarrow> keeps_priors pri (lift_opt m s)"
  by (cases m) simp_all

lemma keeps_priors_then_do:
  assumes "keeps_priors pri m"
    and "\<And>x s. priors s = pri \<Longrightarrow> keeps_priors pri (f x s)"
  shows "keeps_priors pri (then_do m f)"
  using assms by (cases m) simp_all

lemma keeps_priors_for_each:
  assumes body: "\<And>x loc s. priors s = pri \<Longrightarrow> keeps_priors pri (body x loc s)"
    and init: "priors s = pri"
  shows "keeps_priors pri (for_each body xs loc s)"
  using init
proof (induction xs arbitrary: loc s)
  case Nil
  then show ?case by simp
next
  case (Cons x xs)
  from body [OF Cons.prems, of x loc] Cons.IH show ?case
    by (cases "body x loc s") simp_all
qed

lemma keeps_priors_period_step:
  "priors s = pri \<Longrightarrow> keeps_priors pri (period_step numbering n cP s)"
  by (auto simp: period_step_def split: option.splits)

lemma keeps_priors_period_gate:
  "priors s = pri \<Longrightarrow> keeps_priors pri (period_gate numbering n s)"
  unfolding period_gate_def
  by (rule keeps_priors_for_each) (simp_all add: keeps_priors_period_step)

lemma keeps_priors_transit_planet:
  "priors s = pri \<Longrightarrow> keeps_priors pri (transit_planet cfg instrument n loc s)"
  by (auto simp: transit_planet_def Let_def split: option.splits prod.splits)

lemma keeps_priors_photometric_section:
  "priors s = pri \<Longrightarrow> keeps_priors pri (photometric_section cfg s)"
  unfolding photometric_section_def
  by (auto intro!: keeps_priors_then_do keeps_priors_for_each keeps_priors_period_gate
        keeps_priors_transit_planet)

lemma keeps_priors_lc_likelihood:
  "priors s = pri \<Longrightarrow> keeps_priors pri (lc_likelihood cfg model_opt instrument ll s)"
  by (auto simp: lc_likelihood_def intro!: keeps_priors_lift_opt split: option.splits)

lemma keeps_priors_photometric_part:
  "priors s = pri \<Longrightarrow> keeps_priors pri (photometric_part cfg s)"
  unfolding photometric_part_def
  by (auto intro!: keeps_priors_then_do keeps_priors_for_each keeps_priors_photometric_section
        keeps_priors_lc_likelihood keeps_priors_lift_opt)

lemma keeps_priors_rv_planet:
  "priors s = pri \<Longrightarrow> keeps_priors pri (rv_planet cfg n loc s)"
  by (auto simp: rv_planet_def split: option.splits prod.splits)

lemma keeps_priors_rv_section:
  "priors s = pri \<Longrightarrow> keeps_priors pri (rv_section cfg s)"
  unfolding rv_section_def
  by (auto intro!: keeps_priors_then_do keeps_priors_for_each keeps_priors_period_gate
        keeps_priors_rv_planet)

lemma keeps_priors_rv_likelihood:
  "priors s = pri \<Longrightarrow> keeps_priors pri (rv_likelihood cfg rvmodel instrument ll s)"
  by (auto simp: rv_likelihood_def intro!: keeps_priors_lift_opt split: option.splits prod.splits)

lemma keeps_priors_rv_gp:
  "priors s = pri \<Longrightarrow> keeps_priors pri (rv_gp cfg ll s)"
  by (auto simp: rv_gp_def intro!: keeps_priors_lift_opt split: option.splits)

lemma keeps_priors_rv_part:
  "priors s = pri \<Longrightarrow> keeps_priors pri (rv_part cfg ll s)"
  unfolding rv_part_def
  by (auto intro!: keeps_priors_then_do keeps_priors_for_each keeps_priors_rv_section
        keeps_priors_rv_likelihood keeps_priors_lift_opt keeps_priors_rv_gp)

lemma keeps_priors_loglike:
  "assign_cvalues (priors s0) cube 0 = Some pri \<Longrightarrow> keeps_priors pri (loglike cfg cube s0)"
  unfolding loglike_def
  by (auto intro!: keeps_priors_then_do keeps_priors_photometric_part keeps_priors_rv_part)

lemma keeps_priors_GoD: "keeps_priors pri r \<Longrightarrow> r = Go x s \<Longrightarrow> priors s = pri"
  by simp

lemma keeps_priors_RetD: "keeps_priors pri r \<Longrightarrow> r = Ret v s \<Longrightarrow> priors s = pri \<and> v = floor_value"
  by simp

subsection \<open>A planet that cannot pass blocks the evaluation\<close>

lemma then_do_blocked_left:
  assumes "\<And>x s. m \<noteq> Go x s"
  shows "then_do m f \<noteq> Go y s'"
  using assms by (cases m) auto

lemma then_do_blocked_right:
  assumes "\<And>x s. m = Go x s \<Longrightarrow> f x s \<noteq> Go y s'"
  shows "then_do m f \<noteq> Go y s'"
proof (cases m)
  case (Go x s)
  with assms [OF Go] show ?thesis by simp
qed simp_all

lemma transit_planet_Go_priors:
  "priors s = pri \<Longrightarrow> transit_planet cfg instrument y loc s = Go loc' s' \<Longrightarrow> priors s' = pri"
  using keeps_priors_transit_planet [of s pri cfg instrument y loc] by simp

lemma rv_planet_Go_priors:
  "priors s = pri \<Longrightarrow> rv_planet cfg y loc s = Go loc' s' \<Longrightarrow> priors s' = pri"
  using keeps_priors_rv_planet [of s pri cfg y loc] by simp

lemma period_gate_Go_priors:
  "priors s = pri \<Longrightarrow> period_gate numbering n s = Go cP s' \<Longrightarrow> priors s' = pri"
  using keeps_priors_period_gate [of s pri numbering n] by simp

lemma photometric_part_Go_priors:
  "priors s = pri \<Longrightarrow> photometric_part cfg s = Go ll s' \<Longrightarrow> priors s' = pri"
  using keeps_priors_photometric_part [of s pri cfg] by simp

lemma transit_loop_Go_priors:
  assumes "priors s = pri"
    and "for_each (transit_planet cfg instrument) ns loc s = Go loc' s'"
  shows "priors s' = pri"
proof -
  have "keeps_priors pri (for_each (transit_planet cfg instrument) ns loc s)"
    by (rule keeps_priors_for_each) (simp_all add: keeps_priors_transit_planet assms(1))
  with assms(2) show ?thesis by simp
qed

lemma transit_loop_blocked:
  assumes k: "k < n_transit cfg"
    and blk: "\<And>instrument loc s loc' s'. priors s = pri \<Longrightarrow> transit_planet cfg instrument k loc s \<noteq> Go loc' s'"
    and init: "priors s = pri"
  shows "for_each (transit_planet cfg instrument) [0..<n_transit cfg] loc s \<noteq> Go loc' s'"
proof (rule for_each_blocked [where I = "\<lambda>t. priors t = pri" and x = k])
  show "k \<in> set [0..<n_transit cfg]" using k by simp
  show "\<And>loc s loc' s'. priors s = pri \<Longrightarrow> transit_planet cfg instrument k loc s \<noteq> Go loc' s'"
    by (rule blk)
  show "\<And>y loc s loc' s'. priors s = pri \<Longrightarrow> transit_planet cfg instrument y loc s = Go loc' s'
          \<Longrightarrow> priors s' = pri"
    by (rule transit_planet_Go_priors)
  show "priors s = pri" by (rule init)
qed

lemma photometric_section_blocked:
  assumes lc: "lcfilename cfg" and inst: "inames_lc cfg \<noteq> []"
    and k: "k < n_transit cfg"
    and blk: "\<And>instrument loc s loc' s'. priors s = pri \<Longrightarrow> transit_planet cfg instrument k loc s \<noteq> Go loc' s'"
    and init: "priors s = pri"
  shows "photometric_section cfg s \<noteq> Go loc' s'"
proof -
  have outer: "for_each (\<lambda>instrument. for_each (transit_planet cfg instrument) [0..<n_transit cfg])
                 (inames_lc cfg) loc0 s1 \<noteq> Go loc' s'" if s1: "priors s1 = pri" for loc0 s1
  proof (rule for_each_blocked [where I = "\<lambda>t. priors t = pri" and x = "hd (inames_lc cfg)"])
    show "hd (inames_lc cfg) \<in> set (inames_lc cfg)" using inst by simp
    show "\<And>loc s loc' s'. priors s = pri \<Longrightarrow>
            for_each (transit_planet cfg (hd (inames_lc cfg))) [0..<n_transit cfg] loc s \<noteq> Go loc' s'"
      by (rule transit_loop_blocked [OF k blk])
    show "\<And>y loc s loc' s'. priors s = pri \<Longrightarrow>
            for_each (transit_planet cfg y) [0..<n_transit cfg] loc s = Go loc' s' \<Longrightarrow> priors s' = pri"
      by (rule transit_loop_Go_priors)
    show "priors s1 = pri" by (rule s1)
  qed
  have "then_do (period_gate (numbering_transit cfg) (n_transit cfg) s)
          (\<lambda>cP s1. for_each (\<lambda>instrument. for_each (transit_planet cfg instrument) [0..<n_transit cfg])
               (inames_lc cfg) \<lparr>lcmodel = Some (lcones cfg), last_aP = None\<rparr> s1) \<noteq> Go loc' s'"
  proof (rule then_do_blocked_right)
    fix cP s1
    assume "period_gate (numbering_transit cfg) (n_transit cfg) s = Go cP s1"
    from period_gate_Go_priors [OF init this] have "priors s1 = pri" .
    then show "for_each (\<lambda>instrument. for_each (transit_planet cfg instrument) [0..<n_transit cfg])
               (inames_lc cfg) \<lparr>lcmodel = Some (lcones cfg), last_aP = None\<rparr> s1 \<noteq> Go loc' s'"
      by (rule outer)
  qed
  then show ?thesis
    unfolding photometric_section_def using lc by simp
qed

lemma loglike_blocked_transit:
  assumes asg: "assign_cvalues (priors s0) cube 0 = Some pri"
    and lc: "lcfilename cfg" and inst: "inames_lc cfg \<noteq> []"
    and k: "k < n_transit cfg"
    and blk: "\<And>instrument loc s loc' s'. priors s = pri \<Longrightarrow> transit_planet cfg instrument k loc s \<noteq> Go loc' s'"
  shows "loglike cfg cube s0 \<noteq> Go v s'"
proof -
  have "photometric_section cfg (s0\<lparr>priors := pri\<rparr>) \<noteq> Go loc t" for loc t
    by (rule photometric_section_blocked [OF lc inst k blk]) simp_all
  then have "photometric_part cfg (s0\<lparr>priors := pri\<rparr>) \<noteq> Go ll t" for ll t
    unfolding photometric_part_def by (rule then_do_blocked_left)
  then have "then_do (photometric_part cfg (s0\<lparr>priors := pri\<rparr>)) (rv_part cfg) \<noteq> Go v s'"
    by (rule then_do_blocked_left)
  then show ?thesis
    unfolding loglike_def using asg by simp
qed

lemma rv_section_blocked:
  assumes rv: "rvfilename cfg" and k: "k < n_rv cfg"
    and blk: "\<And>loc s loc' s'. priors s = pri \<Longrightarrow> rv_planet cfg k loc s \<noteq> Go loc' s'"
    and init: "priors s = pri"
  shows "rv_section cfg s \<noteq> Go m s'"
proof -
  have loop: "for_each (rv_planet cfg) [0..<n_rv cfg] () s1 \<noteq> Go u t" if s1: "priors s1 = pri" for s1 u t
  proof (rule for_each_blocked [where I = "\<lambda>t. priors t = pri" and x = k])
    show "k \<in> set [0..<n_rv cfg]" using k by simp
    show "\<And>loc s loc' s'. priors s = pri \<Longrightarrow> rv_planet cfg k loc s \<noteq> Go loc' s'" by (rule blk)
    show "\<And>y loc s loc' s'. priors s = pri \<Longrightarrow> rv_planet cfg y loc s = Go loc' s' \<Longrightarrow> priors s' = pri"
      by (rule rv_planet_Go_priors)
    show "priors s1 = pri" by (rule s1)
  qed
  have "then_do (period_gate (numbering_rv cfg) (n_rv cfg) s)
          (\<lambda>cP s1. then_do (for_each (rv_planet cfg) [0..<n_rv cfg] () s1)
               (\<lambda>u s2. Go (Some (rv_model cfg (radvel_params s2))) s2)) \<noteq> Go m s'"
  proof (rule then_do_blocked_right)
    fix cP s1
    assume "period_gate (numbering_rv cfg) (n_rv cfg) s = Go cP s1"
    from period_gate_Go_priors [OF init this] have "priors s1 = pri" .
    then show "then_do (for_each (rv_planet cfg) [0..<n_rv cfg] () s1)
               (\<lambda>u s2. Go (Some (rv_model cfg (radvel_params s2))) s2) \<noteq> Go m s'"
      by (intro then_do_blocked_left loop)
  qed
  then show ?thesis
    unfolding rv_section_def using rv by simp
qed

lemma loglike_blocked_rv:
  assumes asg: "assign_cvalues (priors s0) cube 0 = Some pri"
    and rv: "rvfilename cfg" and k: "k < n_rv cfg"
    and blk: "\<And>loc s loc' s'. priors s = pri \<Longrightarrow> rv_planet cfg k loc s \<noteq> Go loc' s'"
  shows "loglike cfg cube s0 \<noteq> Go v s'"
proof -
  have part: "rv_part cfg ll s \<noteq> Go v s'" if "priors s = pri" for ll s
    unfolding rv_part_def
    by (rule then_do_blocked_left) (rule rv_section_blocked [OF rv k blk that])
  have "then_do (photometric_part cfg (s0\<lparr>priors := pri\<rparr>)) (rv_part cfg) \<noteq> Go v s'"
  proof (rule then_do_blocked_right)
    fix ll s
    assume "photometric_part cfg (s0\<lparr>priors := pri\<rparr>) = Go ll s"
    from photometric_part_Go_priors [OF _ this] have "priors s = pri" by simp
    then show "rv_part cfg ll s \<noteq> Go v s'" by (rule part)
  qed
  then show ?thesis
    unfolding loglike_def using asg by simp
qed

lemma loglike_floor:
  assumes asg: "assign_cvalues (priors s0) cube 0 = Some pri"
    and nogo: "\<And>v s'. loglike cfg cube s0 \<noteq> Go v s'"
    and noexn: "loglike cfg cube s0 \<noteq> Exn"
  shows "\<exists>s'. loglike cfg cube s0 = Ret floor_value s' \<and> priors s' = pri"
  using keeps_priors_loglike [OF asg, of cfg] nogo noexn
  by (cases "loglike cfg cube s0") auto

subsection \<open>White-noise likelihood\<close>

lemma sum_list_map2_nth:
  "length xs = length ys \<Longrightarrow> sum_list (map2 f xs ys) = (\<Sum>i<length ys. f (xs ! i) (ys ! i))"
proof (induction xs ys rule: list_induct2)
  case Nil
  then show ?case by simp
next
  case (Cons x xs y ys)
  then show ?case
    by (simp add: lessThan_Suc_eq_insert_0 sum.reindex zero_notin_Suc_image sum.insert)
qed

text \<open>
  Claim C2. For residuals \<open>r\<close> of length \<open>N\<close>, per-point errors \<open>\<sigma>\<close> of the same length and
  jitter \<open>j\<close>, with every \<open>\<sigma>\<^sub>i\<^sup>2 + j\<^sup>2\<close> positive, \<^verbatim>\<open>gaussian_log_likelihood\<close> returns
  \<open>-0.5 (N log(2\<pi>) + \<Sum> log(\<sigma>\<^sub>i\<^sup>2 + j\<^sup>2) + \<Sum> r\<^sub>i\<^sup>2 / (\<sigma>\<^sub>i\<^sup>2 + j\<^sup>2))\<close>. The witness is the
  instance of the specification: residuals \<open>[0.1, -0.2, 0.05, 0, 0.15]\<close>, uniform error
  \<open>0.1\<close> and jitter \<open>0\<close>.
\<close>

theorem gaussian_log_likelihood_closed_form:
  assumes len: "length errors = length residuals"
    and pos: "list_all (\<lambda>e. 0 < e ^ 2 + jitter ^ 2) errors"
  shows "gaussian_log_likelihood residuals errors jitter =
           Some (- 0.5 * (real (length residuals) * ln (2 * pi)
             + (\<Sum>i<length residuals. ln ((errors ! i) ^ 2 + jitter ^ 2))
             + (\<Sum>i<length residuals. (residuals ! i) ^ 2 / ((errors ! i) ^ 2 + jitter ^ 2))))"
proof -
  let ?taus = "map (\<lambda>e. 1 / (e ^ 2 + jitter ^ 2)) errors"
  have l: "length ?taus = length residuals" using len by simp
  have "sum_list (map2 (\<lambda>tau r. ln (1 / tau) + tau * r ^ 2) ?taus residuals)
        = (\<Sum>i<length residuals. ln (1 / (?taus ! i)) + (?taus ! i) * (residuals ! i) ^ 2)"
    by (rule sum_list_map2_nth [OF l])
  also have "\<dots> = (\<Sum>i<length residuals. ln ((errors ! i) ^ 2 + jitter ^ 2)
                        + (residuals ! i) ^ 2 / ((errors ! i) ^ 2 + jitter ^ 2))"
    by (rule sum.cong) (simp_all add: len)
  also have "\<dots> = (\<Sum>i<length residuals. ln ((errors ! i) ^ 2 + jitter ^ 2))
                 + (\<Sum>i<length residuals. (residuals ! i) ^ 2 / ((errors ! i) ^ 2 + jitter ^ 2))"
    by (simp add: sum.distrib)
  finally show ?thesis
    using l by (simp add: gaussian_log_likelihood_def broadcast2_def log2pi_def Let_def)
qed

theorem gaussian_log_likelihood_closed_form_witness:
  "gaussian_log_likelihood [1/10, - (2/10), 5/100, 0, 15/100] [1/10, 1/10, 1/10, 1/10, 1/10] 0
     = Some (- 0.5 * (5 * ln (2 * pi) + 5 * ln (1 / 100) + 15 / 2))"
  using gaussian_log_likelihood_closed_form
    [of "[1/10, 1/10, 1/10, 1/10, 1/10]" "[1/10, - (2/10), 5/100, 0, 15/100]" 0]
  by (simp add: lessThan_Suc eval_nat_numeral power2_eq_square)

text \<open>An instrument without GP adds the white-noise likelihood of its residuals, with the
  jitter in ppm for photometry and as it is for radial velocities.\<close>

lemma lc_likelihood_white_noise:
  assumes "\<not> GPDetrend (lc_dictionary cfg instrument)"
    and "lc_residuals cfg (priors s) model_opt instrument = Some residuals"
    and "gather (ferr_lc cfg) (indexes (lc_dictionary cfg instrument)) = Some errors"
    and "cvalue_of (priors s) (''sigma_w_'' @ instrument) = Some sw"
    and "gaussian_log_likelihood residuals errors (sw * (1 / 10 ^ 6)) = Some g"
  shows "lc_likelihood cfg model_opt instrument ll s = Go (ll + g) s"
  using assms by (simp add: lc_likelihood_def)

lemma rv_likelihood_white_noise:
  assumes "\<not> rveparamfile cfg"
    and "rv_residuals cfg (priors s) rvmodel instrument = Some residuals"
    and "gather (rverr_rv cfg) (instrument_indexes_rv cfg instrument) = Some errors"
    and "cvalue_of (priors s) (''sigma_w_rv_'' @ instrument) = Some sw"
    and "gaussian_log_likelihood residuals errors sw = Some g"
  shows "rv_likelihood cfg rvmodel instrument ll s = Go (ll + g) s"
  using assms by (simp add: rv_likelihood_def)

subsection \<open>Evaluation helpers\<close>

lemma str_nat_digit: "n < 10 \<Longrightarrow> str_nat n = [digit_char n]"
  by (simp add: str_nat.simps)

lemma str_nat_small [simp]:
  "str_nat 0 = ''0''" "str_nat 1 = ''1''" "str_nat (Suc 0) = ''1''" "str_nat 2 = ''2''" "str_nat 3 = ''3''"
  by (simp_all add: str_nat_digit digit_char_def)

lemma Ar_unit [simp]: "Ar 0 1 = 1 / 3"
  by (simp add: Ar_def)

lemma sqrt_quarter: "sqrt (1 / 4) = 1 / 2"
  by (simp add: real_sqrt_divide)

subsection \<open>Geometry reparametrization\<close>

text \<open>
  Claim C4. Under the efficient sampling of the (b,p) plane with bounds \<open>0 \<le> pl < pu\<close> and
  \<open>Ar = (pu - pl) / (2 + pl + pu)\<close>, the values \<open>b\<close> and \<open>p\<close> that \<^verbatim>\<open>loglike\<close> computes for a
  planet from its \<open>r1 \<ge> 0\<close> and \<open>r2\<close> are \<open>b = (1 + pl)(1 + (r1 - 1) / (1 - Ar))\<close>,
  \<open>p = (1 - r2) pl + r2 pu\<close> when \<open>r1 > Ar\<close>, and \<open>b = (1 + pl) + sqrt(r1 / Ar) r2 (pu - pl)\<close>,
  \<open>p = pu + (pl - pu) sqrt(r1 / Ar) (1 - r2)\<close> when \<open>r1 \<le> Ar\<close>.
\<close>

theorem efficient_bp_formulas:
  assumes eff: "efficient_bp cfg"
    and bounds: "0 \<le> pl cfg" "pl cfg < pu cfg"
    and r1: "cvalue_of pri (''r1_p'' @ str_nat i) = Some r1" "0 \<le> r1"
    and r2: "cvalue_of pri (''r2_p'' @ str_nat i) = Some r2"
    and geo: "planet_geometry cfg pri i = Some (a, b, p, t0, P)"
  shows "Ar (pl cfg) (pu cfg) = (pu cfg - pl cfg) / (2 + pl cfg + pu cfg)
       \<and> (b, p) =
           (if r1 > Ar (pl cfg) (pu cfg) then
              ((1 + pl cfg) * (1 + (r1 - 1) / (1 - Ar (pl cfg) (pu cfg))),
               (1 - r2) * pl cfg + r2 * pu cfg)
            else
              ((1 + pl cfg) + sqrt (r1 / Ar (pl cfg) (pu cfg)) * r2 * (pu cfg - pl cfg),
               pu cfg + (pl cfg - pu cfg) * sqrt (r1 / Ar (pl cfg) (pu cfg)) * (1 - r2)))"
  using eff r1(1) r2 geo
  by (auto simp: planet_geometry_def Ar_def bp_from_r_def Let_def
        split: if_splits Option.bind_splits prod.splits)

theorem efficient_bp_formulas_witness:
  "planet_geometry bp_config (bp_registry (1 / 2) (1 / 5)) 1 = Some (15, 1 / 4, 1 / 5, 2, 3)
   \<and> ((1 / 4 :: real), (1 / 5 :: real)) = ((1 + 0) * (1 + (1 / 2 - 1) / (1 - 1 / 3)), (1 - 1 / 5) * 0 + 1 / 5 * 1)
   \<and> planet_geometry bp_config (bp_registry (1 / 12) (1 / 5)) 1 = Some (15, 11 / 10, 3 / 5, 2, 3)
   \<and> ((11 / 10 :: real), (3 / 5 :: real)) =
       ((1 + 0) + sqrt (1 / 12 / (1 / 3)) * (1 / 5) * (1 - 0), 1 + (0 - 1) * sqrt (1 / 12 / (1 / 3)) * (1 - 1 / 5))"
proof -
  have g1: "planet_geometry bp_config (bp_registry (1 / 2) (1 / 5)) 1 = Some (15, 1 / 4, 1 / 5, 2, 3)"
    by (simp add: planet_geometry_def bp_config_def base_config_def bp_registry_def sampled_def
          cvalue_of_def bp_from_r_def)
  have g2: "planet_geometry bp_config (bp_registry (1 / 12) (1 / 5)) 1 = Some (15, 11 / 10, 3 / 5, 2, 3)"
    by (simp add: planet_geometry_def bp_config_def base_config_def bp_registry_def sampled_def
          cvalue_of_def bp_from_r_def sqrt_quarter)
  have c: "efficient_bp bp_config" "0 \<le> pl bp_config" "pl bp_config < pu bp_config"
    by (simp_all add: bp_config_def base_config_def)
  have l1: "cvalue_of (bp_registry (1 / 2) (1 / 5)) (''r1_p'' @ str_nat 1) = Some (1 / 2)"
    "cvalue_of (bp_registry (1 / 2) (1 / 5)) (''r2_p'' @ str_nat 1) = Some (1 / 5)"
    "cvalue_of (bp_registry (1 / 12) (1 / 5)) (''r1_p'' @ str_nat 1) = Some (1 / 12)"
    "cvalue_of (bp_registry (1 / 12) (1 / 5)) (''r2_p'' @ str_nat 1) = Some (1 / 5)"
    by (simp_all add: bp_registry_def sampled_def cvalue_of_def)
  from efficient_bp_formulas [OF c l1(1) _ l1(2) g1] efficient_bp_formulas [OF c l1(3) _ l1(4) g2] g1 g2
  show ?thesis
    by (simp add: bp_config_def base_config_def)
qed

lemma bp_upper: "1 / 3 < r1 \<Longrightarrow> bp_from_r 0 1 r1 r2 = (1 + (r1 - 1) * 3 / 2, r2)"
  by (simp add: bp_from_r_def)

lemma bp_lower:
  "r1 \<le> 1 / 3 \<Longrightarrow> bp_from_r 0 1 r1 r2 = (1 + sqrt (3 * r1) * r2, 1 - sqrt (3 * r1) * (1 - r2))"
  by (simp add: bp_from_r_def mult.commute)

text \<open>
  Claim C5, as amended. With \<open>pl = 0\<close> and \<open>pu = 1\<close> the map from \<open>(r1, r2)\<close> to \<open>(b, p)\<close> is
  injective on \<open>0 < r1 < 1\<close>, \<open>r2 \<ge> 0\<close>, across both branches: two points of this region
  with the same image are equal, so the point is recovered exactly from \<open>(b, p)\<close>.
\<close>

theorem bp_from_r_injective:
  assumes r1: "0 < r1" "r1 < 1" and r2: "0 \<le> r2"
    and r1': "0 < r1'" "r1' < 1" and r2': "0 \<le> r2'"
    and eq: "bp_from_r 0 1 r1 r2 = bp_from_r 0 1 r1' r2'"
  shows "r1 = r1' \<and> r2 = r2'"
proof -
  have low_ge: "1 \<le> fst (bp_from_r 0 1 x y)" if "x \<le> 1 / 3" "0 \<le> x" "0 \<le> y" for x y
    using that by (simp add: bp_lower)
  have up_lt: "fst (bp_from_r 0 1 x y) < 1" if "1 / 3 < x" "x < 1" for x y
    using that by (simp add: bp_upper)
  consider (uu) "1 / 3 < r1" "1 / 3 < r1'" | (ll) "r1 \<le> 1 / 3" "r1' \<le> 1 / 3"
    | (ul) "1 / 3 < r1" "r1' \<le> 1 / 3" | (lu) "r1 \<le> 1 / 3" "1 / 3 < r1'"
    by linarith
  then show ?thesis
  proof cases
    case uu
    with eq show ?thesis by (simp add: bp_upper)
  next
    case ll
    let ?s = "sqrt (3 * r1)" and ?t = "sqrt (3 * r1')"
    from eq ll have b: "?s * r2 = ?t * r2'" and p: "?s * (1 - r2) = ?t * (1 - r2')"
      by (simp_all add: bp_lower)
    from b p have st: "?s = ?t" by (simp add: algebra_simps)
    then have "r1 = r1'" by simp
    moreover have "0 < ?s" using r1 by simp
    with b st have "r2 = r2'" by simp
    ultimately show ?thesis by simp
  next
    case ul
    from up_lt [OF ul(1) r1(2), of r2] low_ge [OF ul(2) _ r2', of] r1'(1) eq
    show ?thesis by simp
  next
    case lu
    from up_lt [OF lu(2) r1'(2), of r2'] low_ge [OF lu(1) _ r2] r1(1) eq
    show ?thesis by simp
  qed
qed

theorem bp_from_r_injective_witness:
  "bp_from_r 0 1 (1 / 2) (1 / 5) = bp_from_r 0 1 (1 / 2) (1 / 5) \<and> (1 / 2 :: real) = 1 / 2 \<and> (1 / 5 :: real) = 1 / 5"
  using bp_from_r_injective [of "1 / 2" "1 / 5" "1 / 2" "1 / 5"] by simp

text \<open>
  Claim C5 as stated, on the closed square, fails on the edge \<open>r1 = 0\<close>: every \<open>r2\<close> is
  mapped to \<open>(b, p) = (1, 1)\<close>, so the points \<open>(0, 0.2)\<close> and \<open>(0, 0.7)\<close> have the same
  image and no inverse returns both within \<open>1e-9\<close>.
\<close>

theorem bp_from_r_collision:
  "bp_from_r 0 1 0 (1 / 5) = bp_from_r 0 1 0 (7 / 10) \<and> \<not> \<bar>(1 / 5 :: real) - 7 / 10\<bar> \<le> 2 / 10 ^ 9"
  by (simp add: bp_from_r_def)

subsection \<open>Eccentricity parametrizations\<close>

text \<open>
  Claim C7. For a planet tagged with the cos-sin parametrization (tag 1) the resolver
  returns \<open>e = sqrt(ecos\<omega>\<^sup>2 + esin\<omega>\<^sup>2)\<close> and \<open>\<omega> = atan2(esin\<omega>, ecos\<omega>)\<close>; for the sqrt-cos-sin
  parametrization (tag 2) it returns \<open>e = secos\<omega>\<^sup>2 + sesin\<omega>\<^sup>2\<close> and
  \<open>\<omega> = atan2(sesin\<omega>, secos\<omega>)\<close>. In the transit part \<open>\<omega>\<close> is scaled to degrees (times
  \<open>180 / \<pi>\<close>), in the radial-velocity part it stays in radians.
\<close>

theorem ecc_resolver_formulas:
  "(ecc_parametrization_transit cfg i = Some 1
      \<and> cvalue_of pri (''ecosomega_p'' @ str_nat i) = Some ec
      \<and> cvalue_of pri (''esinomega_p'' @ str_nat i) = Some es
      \<longrightarrow> resolve_ecc_transit cfg pri i = Some (sqrt (ec ^ 2 + es ^ 2), arctan2 es ec * 180 / pi))
   \<and> (ecc_parametrization_transit cfg i = Some 2
      \<and> cvalue_of pri (''secosomega_p'' @ str_nat i) = Some sc
      \<and> cvalue_of pri (''sesinomega_p'' @ str_nat i) = Some ss
      \<longrightarrow> resolve_ecc_transit cfg pri i = Some (sc ^ 2 + ss ^ 2, arctan2 ss sc * 180 / pi))
   \<and> (ecc_parametrization_rv cfg i = Some 1
      \<and> cvalue_of pri (''ecosomega_p'' @ str_nat i) = Some ec
      \<and> cvalue_of pri (''esinomega_p'' @ str_nat i) = Some es
      \<longrightarrow> resolve_ecc_rv cfg pri i = Some (sqrt (ec ^ 2 + es ^ 2), arctan2 es ec))
   \<and> (ecc_parametrization_rv cfg i = Some 2
      \<and> cvalue_of pri (''secosomega_p'' @ str_nat i) = Some sc
      \<and> cvalue_of pri (''sesinomega_p'' @ str_nat i) = Some ss
      \<longrightarrow> resolve_ecc_rv cfg pri i = Some (sc ^ 2 + ss ^ 2, arctan2 ss sc))"
  by (simp add: resolve_ecc_transit_def resolve_ecc_rv_def)

theorem ecc_resolver_formulas_witness:
  "resolve_ecc_transit ecc_config ecc_registry 1 = Some (1 / 2, 90)
   \<and> resolve_ecc_transit ecc_config ecc_registry 2 = Some (1 / 4, 90)
   \<and> resolve_ecc_rv ecc_config ecc_registry 1 = Some (1 / 2, pi / 2)
   \<and> resolve_ecc_rv ecc_config ecc_registry 2 = Some (1 / 4, pi / 2)"
proof -
  have tags: "ecc_parametrization_transit ecc_config 1 = Some 1" "ecc_parametrization_transit ecc_config 2 = Some 2"
    "ecc_parametrization_rv ecc_config 1 = Some 1" "ecc_parametrization_rv ecc_config 2 = Some 2"
    by (simp_all add: ecc_config_def base_config_def)
  have keys: "cvalue_of ecc_registry (''ecosomega_p'' @ str_nat 1) = Some 0"
    "cvalue_of ecc_registry (''esinomega_p'' @ str_nat 1) = Some (1 / 2)"
    "cvalue_of ecc_registry (''secosomega_p'' @ str_nat 2) = Some 0"
    "cvalue_of ecc_registry (''sesinomega_p'' @ str_nat 2) = Some (1 / 2)"
    by (simp_all add: ecc_registry_def sampled_def cvalue_of_def)
  have val: "sqrt ((0::real) ^ 2 + (1 / 2) ^ 2) = 1 / 2" "arctan2 (1 / 2) 0 = pi / 2"
    "(0::real) ^ 2 + (1 / 2) ^ 2 = 1 / 4"
    by (simp_all add: arctan2_def power2_eq_square real_sqrt_divide)
  from ecc_resolver_formulas [of ecc_config 1 ecc_registry 0 "1 / 2" 0 0]
    ecc_resolver_formulas [of ecc_config 2 ecc_registry 0 0 0 "1 / 2"] tags keys
  show ?thesis
    by (simp add: val power2_eq_square sqrt_quarter)
qed

text \<open>\<open>arctan2\<close> returns the angle of a point given in polar coordinates.\<close>

lemma arctan2_polar:
  assumes r: "0 < r" and t: "- pi < t" "t \<le> pi"
  shows "arctan2 (r * sin t) (r * cos t) = t"
proof -
  have q: "sin t / cos t = tan t" by (simp add: tan_def)
  have r0: "r \<noteq> 0" using r by simp
  consider (mid) "- (pi / 2) < t" "t < pi / 2" | (top) "t = pi / 2" | (bot) "t = - (pi / 2)"
    | (left_up) "pi / 2 < t" | (left_down) "t < - (pi / 2)"
    by linarith
  then show ?thesis
  proof cases
    case mid
    then have "0 < cos t" by (rule cos_gt_zero_pi)
    with r have "0 < r * cos t" by simp
    then show ?thesis
      using arctan_tan [OF mid] by (simp add: arctan2_def q r0)
  next
    case top
    show ?thesis unfolding top using r by (simp add: arctan2_def)
  next
    case bot
    show ?thesis unfolding bot using r by (simp add: arctan2_def)
  next
    case left_up
    with t have m: "- (pi / 2) < t - pi" "t - pi < pi / 2" by simp_all
    from cos_gt_zero_pi [OF m] have "cos t < 0" by simp
    with r have x: "r * cos t < 0" by (simp add: mult_pos_neg)
    from left_up t have "0 \<le> sin t" by (intro sin_ge_zero) simp_all
    with r have y: "0 \<le> r * sin t" by simp
    have "tan (t - pi) = tan t" using tan_periodic_pi [of "t - pi"] by simp
    with arctan_tan [OF m] have "arctan (tan t) = t - pi" by simp
    with x y show ?thesis
      by (simp add: arctan2_def q r0)
  next
    case left_down
    with t have m: "- (pi / 2) < t + pi" "t + pi < pi / 2" by simp_all
    from cos_gt_zero_pi [OF m] have "cos t < 0" by simp
    with r have x: "r * cos t < 0" by (simp add: mult_pos_neg)
    from left_down t have "0 < sin (t + pi)" by (intro sin_gt_zero) simp_all
    then have "sin t < 0" by simp
    with r have y: "r * sin t < 0" by (simp add: mult_pos_neg)
    from arctan_tan [OF m] have "arctan (tan t) = t + pi" by simp
    with x y show ?thesis
      by (simp add: arctan2_def q r0)
  qed
qed

lemma polar_norm: "0 \<le> r \<Longrightarrow> sqrt ((r * cos t) ^ 2 + (r * sin t) ^ 2) = r"
proof -
  assume r: "0 \<le> r"
  have "(r * cos t) ^ 2 + (r * sin t) ^ 2 = r ^ 2 * ((cos t) ^ 2 + (sin t) ^ 2)"
    by (simp only: power_mult_distrib distrib_left)
  then show ?thesis using r by simp
qed

text \<open>Both parametrizations are inverted by the resolver: from the components of an
  eccentricity \<open>e > 0\<close> and an angle \<open>w\<close> in \<open>(-\<pi>, \<pi>]\<close> it returns \<open>e\<close> and \<open>w\<close>, in radians for
  radial velocities and in degrees for transits.\<close>

lemma resolver_recovers_cos_sin:
  assumes "0 < e" "- pi < w" "w \<le> pi"
    and "cvalue_of pri (''ecosomega_p'' @ str_nat i) = Some (e * cos w)"
    and "cvalue_of pri (''esinomega_p'' @ str_nat i) = Some (e * sin w)"
  shows "ecc_parametrization_rv cfg i = Some 1 \<Longrightarrow> resolve_ecc_rv cfg pri i = Some (e, w)"
    and "ecc_parametrization_transit cfg i = Some 1 \<Longrightarrow>
           resolve_ecc_transit cfg pri i = Some (e, w * 180 / pi)"
  using assms arctan2_polar [of e w] polar_norm [of e w]
  by (simp_all add: resolve_ecc_rv_def resolve_ecc_transit_def)

lemma resolver_recovers_sqrt_cos_sin:
  assumes "0 < e" "- pi < w" "w \<le> pi"
    and "cvalue_of pri (''secosomega_p'' @ str_nat i) = Some (sqrt e * cos w)"
    and "cvalue_of pri (''sesinomega_p'' @ str_nat i) = Some (sqrt e * sin w)"
  shows "ecc_parametrization_rv cfg i = Some 2 \<Longrightarrow> resolve_ecc_rv cfg pri i = Some (e, w)"
    and "ecc_parametrization_transit cfg i = Some 2 \<Longrightarrow>
           resolve_ecc_transit cfg pri i = Some (e, w * 180 / pi)"
proof -
  have "(sqrt e) ^ 2 = e" using assms(1) by simp
  then have "(sqrt e * cos w) ^ 2 + (sqrt e * sin w) ^ 2 = e * ((cos w) ^ 2 + (sin w) ^ 2)"
    by (simp only: power_mult_distrib distrib_left)
  then have n: "(sqrt e * cos w) ^ 2 + (sqrt e * sin w) ^ 2 = e" by simp
  have a: "arctan2 (sqrt e * sin w) (sqrt e * cos w) = w"
    using assms(1-3) by (intro arctan2_polar) simp_all
  show "ecc_parametrization_rv cfg i = Some 2 \<Longrightarrow> resolve_ecc_rv cfg pri i = Some (e, w)"
    using assms(4,5) n a by (simp add: resolve_ecc_rv_def)
  show "ecc_parametrization_transit cfg i = Some 2 \<Longrightarrow>
           resolve_ecc_transit cfg pri i = Some (e, w * 180 / pi)"
    using assms(4,5) n a by (simp add: resolve_ecc_transit_def)
qed

subsection \<open>Period ordering\<close>

lemma sorted_wrt_less_snoc:
  fixes x :: real
  assumes "sorted_wrt (<) xs" "xs \<noteq> []"
  shows "sorted_wrt (<) (xs @ [x]) \<longleftrightarrow> last xs < x"
proof
  assume "sorted_wrt (<) (xs @ [x])"
  then have "\<forall>y\<in>set xs. y < x" by (simp add: sorted_wrt_append)
  with assms(2) show "last xs < x" by simp
next
  assume l: "last xs < x"
  have "y \<le> last xs" if "y \<in> set xs" for y
  proof -
    from that obtain k where k: "k < length xs" "xs ! k = y" by (auto simp: in_set_conv_nth)
    show ?thesis
    proof (cases "k = length xs - 1")
      case True
      with k assms(2) show ?thesis by (simp add: last_conv_nth)
    next
      case False
      with k have "k < length xs - 1" by simp
      with k have "k < length xs - 1" "length xs - 1 < length xs" by simp_all
      from sorted_wrt_nth_less [OF assms(1) this] have "xs ! k < xs ! (length xs - 1)" .
      with k assms(2) show ?thesis by (simp add: last_conv_nth)
    qed
  qed
  with l assms(1) show "sorted_wrt (<) (xs @ [x])"
    by (fastforce simp: sorted_wrt_append)
qed

lemma hd_le_last_sorted:
  fixes xs :: "real list"
  assumes "sorted_wrt (<) xs" "xs \<noteq> []"
  shows "hd xs \<le> last xs"
proof (cases "length xs = 1")
  case True
  then obtain x where "xs = [x]" by (cases xs) auto
  then show ?thesis by simp
next
  case False
  with assms(2) have "0 < length xs - 1" by (cases xs) auto
  moreover have "length xs - 1 < length xs" using assms(2) by simp
  ultimately have "xs ! 0 < xs ! (length xs - 1)"
    by (rule sorted_wrt_nth_less [OF assms(1)])
  with assms(2) show ?thesis by (simp add: hd_conv_nth last_conv_nth)
qed

lemma for_each_single: "for_each body [x] = body x"
  by (rule ext, rule ext) (simp split: flow.splits)

text \<open>The gate accepts exactly the strictly increasing lists of periods that start at a
  period that is not negative.\<close>

lemma period_gate_char:
  assumes "map (planet_period numbering (priors s)) [0..<n] = map Some Ps"
  shows "period_gate numbering n s =
           (if Ps = [] then Go 0 s
            else if 0 \<le> hd Ps \<and> sorted_wrt (<) Ps then Go (last Ps) s
            else Ret floor_value s)"
  using assms
proof (induction n arbitrary: Ps)
  case 0
  then show ?case by (simp add: period_gate_def)
next
  case (Suc n)
  from Suc.prems have len: "length Ps = Suc n"
    by (metis length_map length_upt diff_zero)
  then obtain Qs x where Ps: "Ps = Qs @ [x]"
    by (metis length_Suc_conv_rev)
  with Suc.prems have q: "map (planet_period numbering (priors s)) [0..<n] = map Some Qs"
    and x: "planet_period numbering (priors s) n = Some x"
    by simp_all
  have lq: "length Qs = n" using len Ps by simp
  have step: "period_gate numbering (Suc n) s = then_do (period_gate numbering n s) (period_step numbering n)"
    by (simp add: period_gate_def for_each_append for_each_single)
  show ?case
  proof (cases "Qs = []")
    case True
    with lq have "n = 0" by simp
    with True x show ?thesis
      by (simp add: step Ps period_gate_def period_step_def)
  next
    case False
    with lq have n0: "n \<noteq> 0" by auto
    show ?thesis
    proof (cases "0 \<le> hd Qs \<and> sorted_wrt (<) Qs")
      case True
      then have ok: "0 \<le> hd Qs" "sorted_wrt (<) Qs" by simp_all
      from hd_le_last_sorted [OF ok(2) False] ok(1) have l0: "0 \<le> last Qs" by simp
      have "period_gate numbering (Suc n) s = period_step numbering n (last Qs) s"
        using Suc.IH [OF q] False True by (simp add: step)
      also have "\<dots> = (if last Qs < x then Go x s else Ret floor_value s)"
        using x n0 l0 by (auto simp: period_step_def)
      finally show ?thesis
        using False ok sorted_wrt_less_snoc [OF ok(2) False, of x]
        by (simp add: Ps)
    next
      case bad: False
      have "period_gate numbering (Suc n) s = Ret floor_value s"
        using Suc.IH [OF q] False bad by (simp add: step)
      moreover have "\<not> (0 \<le> hd (Qs @ [x]) \<and> sorted_wrt (<) (Qs @ [x]))"
        using bad False by (auto simp: sorted_wrt_append)
      ultimately show ?thesis by (simp add: Ps)
    qed
  qed
qed

lemma upt_small: "[0..<1] = [0]" "[0..<2] = [0, 1]" "[0..<3] = [0, 1, 2]"
  "[1..<2] = [1]" "[1..<3] = [1, 2]" "[1..<4] = [1, 2, 3]"
  "[0..<Suc 0] = [0]" "[Suc 0..<2] = [Suc 0]" "[Suc 0..<3] = [Suc 0, 2]" "[Suc 0..<4] = [Suc 0, 2, 3]"
  by (simp_all add: upt_rec)

lemmas example_defs =
  base_config_def base_store_def sampled_def transit3_config_def rv2_config_def period_registry_def
  lc1_config_def lc1_registry_def lc1_cube_def

lemma assign_periods3:
  "assign_cvalues (priors (base_store\<lparr>priors := period_registry 3\<rparr>)) [a, b, c] 0
     = Some [sampled ''P_p1'' a, sampled ''P_p2'' b, sampled ''P_p3'' c]"
  by (simp add: example_defs upt_small nth_opt_def)

lemma assign_periods2:
  "assign_cvalues (priors (base_store\<lparr>priors := period_registry 2\<rparr>)) [a, b] 0
     = Some [sampled ''P_p1'' a, sampled ''P_p2'' b]"
  by (simp add: example_defs upt_small nth_opt_def)

lemma periods3:
  "map (planet_period [1, 2, 3] [sampled ''P_p1'' a, sampled ''P_p2'' b, sampled ''P_p3'' c]) [0..<3]
     = map Some [a, b, c]"
  by (simp add: upt_small planet_period_def nth_opt_def cvalue_of_def sampled_def)

lemma periods2:
  "map (planet_period [1, 2] [sampled ''P_p1'' a, sampled ''P_p2'' b]) [0..<2] = map Some [a, b]"
  by (simp add: upt_small planet_period_def nth_opt_def cvalue_of_def sampled_def)

lemmas loglike_defs =
  loglike_def photometric_part_def photometric_section_def rv_part_def rv_section_def
  period_gate_def period_step_def planet_period_def transit_planet_def ld_coefficients_def
  planet_geometry_def resolve_ecc_transit_def resolve_ecc_rv_def lc_multiply_def
  lc_likelihood_def lc_residuals_def stellar_density_term_def rv_planet_def rv_trend_def
  rv_likelihood_def rv_residuals_def rv_gp_def gaussian_log_likelihood_def broadcast2_def
  gather_def scatter_def nth_opt_def cvalue_of_def returned_def ecclim_def

lemma ln_2pi_small: "- (ln (2 * pi) / 2) \<noteq> floor_value"
proof -
  have "ln (2 * pi) \<le> 2 * pi - 1"
    by (rule ln_le_minus_one) simp
  also have "\<dots> < 8" using pi_less_4 by simp
  finally have "- (ln (2 * pi) / 2) > - 4" by simp
  moreover have "floor_value < - 4" by (simp add: floor_value_def)
  ultimately show ?thesis by simp
qed

text \<open>
  Claim C1, as amended. In each part (transit and radial velocity, independently)
  \<^verbatim>\<open>loglike\<close> runs through the planets in the order of the numbering array and requires the
  first period to be at least zero and each later period to be strictly greater than the
  one before. When the periods \<open>Ps\<close> of the transit planets break this, \<^verbatim>\<open>loglike\<close> returns
  \<^verbatim>\<open>-1e101\<close> at once: the store it leaves differs from the initial one only in the
  registry, so no transit model was composed. When the periods \<open>Qs\<close> of the
  radial-velocity planets break it and the photometric part has gone through, \<^verbatim>\<open>loglike\<close>
  returns \<^verbatim>\<open>-1e101\<close> with the store the photometric part left, before any radial-velocity
  parameter is written. Periods that satisfy the requirement pass the gate.
\<close>

theorem period_ordering_gate:
  assumes asg: "assign_cvalues (priors s0) cube 0 = Some pri"
    and tr: "map (planet_period (numbering_transit cfg) pri) [0..<n_transit cfg] = map Some Ps"
    and rv: "map (planet_period (numbering_rv cfg) pri) [0..<n_rv cfg] = map Some Qs"
  shows "(lcfilename cfg \<and> \<not> (Ps = [] \<or> 0 \<le> hd Ps \<and> sorted_wrt (<) Ps)
            \<longrightarrow> loglike cfg cube s0 = Ret floor_value (s0\<lparr>priors := pri\<rparr>))
       \<and> (rvfilename cfg \<and> \<not> (Qs = [] \<or> 0 \<le> hd Qs \<and> sorted_wrt (<) Qs)
            \<longrightarrow> (\<forall>ll s1. photometric_part cfg (s0\<lparr>priors := pri\<rparr>) = Go ll s1
                   \<longrightarrow> loglike cfg cube s0 = Ret floor_value s1))
       \<and> (Ps = [] \<or> 0 \<le> hd Ps \<and> sorted_wrt (<) Ps
            \<longrightarrow> period_gate (numbering_transit cfg) (n_transit cfg) (s0\<lparr>priors := pri\<rparr>)
                  = Go (if Ps = [] then 0 else last Ps) (s0\<lparr>priors := pri\<rparr>))
       \<and> (Qs = [] \<or> 0 \<le> hd Qs \<and> sorted_wrt (<) Qs
            \<longrightarrow> (\<forall>s1. priors s1 = pri
                   \<longrightarrow> period_gate (numbering_rv cfg) (n_rv cfg) s1 = Go (if Qs = [] then 0 else last Qs) s1))"
proof (intro conjI impI allI)
  let ?s = "s0\<lparr>priors := pri\<rparr>"
  have trs: "map (planet_period (numbering_transit cfg) (priors ?s)) [0..<n_transit cfg] = map Some Ps"
    using tr by simp
  {
    assume a: "lcfilename cfg \<and> \<not> (Ps = [] \<or> 0 \<le> hd Ps \<and> sorted_wrt (<) Ps)"
    then have "period_gate (numbering_transit cfg) (n_transit cfg) ?s = Ret floor_value ?s"
      using period_gate_char [OF trs] by auto
    with a have "photometric_section cfg ?s = Ret floor_value ?s"
      by (simp add: photometric_section_def)
    then have "photometric_part cfg ?s = Ret floor_value ?s"
      by (simp add: photometric_part_def)
    then show "loglike cfg cube s0 = Ret floor_value ?s"
      using asg by (simp add: loglike_def)
  }
  {
    fix ll s1
    assume a: "rvfilename cfg \<and> \<not> (Qs = [] \<or> 0 \<le> hd Qs \<and> sorted_wrt (<) Qs)"
      and ph: "photometric_part cfg ?s = Go ll s1"
    from photometric_part_Go_priors [OF _ ph] have p1: "priors s1 = pri" by simp
    with rv have "map (planet_period (numbering_rv cfg) (priors s1)) [0..<n_rv cfg] = map Some Qs"
      by simp
    from period_gate_char [OF this] a
    have "period_gate (numbering_rv cfg) (n_rv cfg) s1 = Ret floor_value s1" by auto
    with a have "rv_section cfg s1 = Ret floor_value s1"
      by (simp add: rv_section_def)
    then have "rv_part cfg ll s1 = Ret floor_value s1"
      by (simp add: rv_part_def)
    with ph show "loglike cfg cube s0 = Ret floor_value s1"
      using asg by (simp add: loglike_def)
  }
  {
    assume "Ps = [] \<or> 0 \<le> hd Ps \<and> sorted_wrt (<) Ps"
    then show "period_gate (numbering_transit cfg) (n_transit cfg) ?s
                 = Go (if Ps = [] then 0 else last Ps) ?s"
      using period_gate_char [OF trs] by auto
  }
  {
    fix s1 :: store assume a: "Qs = [] \<or> 0 \<le> hd Qs \<and> sorted_wrt (<) Qs" and p1: "priors s1 = pri"
    with rv have "map (planet_period (numbering_rv cfg) (priors s1)) [0..<n_rv cfg] = map Some Qs"
      by simp
    from period_gate_char [OF this] a
    show "period_gate (numbering_rv cfg) (n_rv cfg) s1 = Go (if Qs = [] then 0 else last Qs) s1"
      by auto
  }
qed

theorem period_ordering_gate_witness:
  "loglike transit3_config [5, 3, 10] (base_store\<lparr>priors := period_registry 3\<rparr>)
     = Ret floor_value (base_store\<lparr>priors := [sampled ''P_p1'' 5, sampled ''P_p2'' 3, sampled ''P_p3'' 10]\<rparr>)
   \<and> period_gate [1, 2, 3] 3 (base_store\<lparr>priors := [sampled ''P_p1'' 3, sampled ''P_p2'' 5, sampled ''P_p3'' 10]\<rparr>)
     = Go 10 (base_store\<lparr>priors := [sampled ''P_p1'' 3, sampled ''P_p2'' 5, sampled ''P_p3'' 10]\<rparr>)
   \<and> loglike rv2_config [5, 3] (base_store\<lparr>priors := period_registry 2\<rparr>)
     = Ret floor_value (base_store\<lparr>priors := [sampled ''P_p1'' 5, sampled ''P_p2'' 3]\<rparr>)
   \<and> period_gate [1, 2] 2 (base_store\<lparr>priors := [sampled ''P_p1'' 3, sampled ''P_p2'' 5]\<rparr>)
     = Go 5 (base_store\<lparr>priors := [sampled ''P_p1'' 3, sampled ''P_p2'' 5]\<rparr>)"
proof -
  have t: "lcfilename transit3_config" "numbering_transit transit3_config = [1, 2, 3]"
    "n_transit transit3_config = 3" "numbering_rv transit3_config = []" "n_rv transit3_config = 0"
    by (simp_all add: example_defs)
  have r: "rvfilename rv2_config" "numbering_rv rv2_config = [1, 2]"
    "n_rv rv2_config = 2" "numbering_transit rv2_config = []" "n_transit rv2_config = 0"
    by (simp_all add: example_defs)
  have e: "map (planet_period [] pri) [0..<0] = map Some []" for pri
    by simp
  have ph: "photometric_part rv2_config (base_store\<lparr>priors := [sampled ''P_p1'' a, sampled ''P_p2'' b]\<rparr>)
              = Go 0 (base_store\<lparr>priors := [sampled ''P_p1'' a, sampled ''P_p2'' b]\<rparr>)" for a b
    by (simp add: photometric_part_def photometric_section_def stellar_density_term_def example_defs)
  note A = period_ordering_gate [of "base_store\<lparr>priors := period_registry 3\<rparr>" "[5, 3, 10]" _
             transit3_config "[5, 3, 10]" "[]", OF assign_periods3, unfolded t, OF periods3 e]
  note B = period_ordering_gate [of "base_store\<lparr>priors := period_registry 3\<rparr>" "[3, 5, 10]" _
             transit3_config "[3, 5, 10]" "[]", OF assign_periods3, unfolded t, OF periods3 e]
  note C = period_ordering_gate [of "base_store\<lparr>priors := period_registry 2\<rparr>" "[5, 3]" _
             rv2_config "[]" "[5, 3]", OF assign_periods2, unfolded r, OF e periods2]
  note D = period_ordering_gate [of "base_store\<lparr>priors := period_registry 2\<rparr>" "[3, 5]" _
             rv2_config "[]" "[3, 5]", OF assign_periods2, unfolded r, OF e periods2]
  from A B C D ph t(1) r(1) show ?thesis
    by simp
qed

text \<open>
  Claim C1 as stated fails twice. A single planet with period \<open>0\<close>, a period that is not
  positive, is evaluated to the end and the likelihood \<open>-ln(2\<pi>)/2\<close> is returned, not the
  floor value. The periods \<open>(3, 3, 10)\<close>, where each period is at least the one before,
  are rejected.
\<close>

theorem zero_period_passes_equal_periods_floor:
  "returned (loglike lc1_config (lc1_cube 0 0 0) (base_store\<lparr>priors := lc1_registry\<rparr>))
     = Some (- (ln (2 * pi) / 2))
   \<and> - (ln (2 * pi) / 2) \<noteq> floor_value
   \<and> returned (loglike transit3_config [3, 3, 10] (base_store\<lparr>priors := period_registry 3\<rparr>))
     = Some floor_value"
  by (simp add: ln_2pi_small loglike_defs example_defs upt_small log2pi_def)

subsection \<open>Feasibility gates of the planet loops\<close>

lemmas example_defs2 = rv1_config_def rv1_registry_def rv1_cube_def lc1_sample_def rv1_sample_def

text \<open>The body of the planet loop, once its four lookups have succeeded.\<close>

lemma transit_planet_unfold:
  assumes "nth_opt (numbering_transit cfg) k = Some i"
    and "ld_coefficients cfg pri instrument = Some coeffs"
    and "planet_geometry cfg pri i = Some (a, b, p, t0, P)"
    and "resolve_ecc_transit cfg pri i = Some (e, om)"
    and "priors s = pri"
    and "c = (b / a) * ((1 + e * sin (om * pi / 180)) / (1 - e ^ 2))"
  shows "transit_planet cfg instrument k loc s =
     (if e > ecclim \<or> b > 1 + p \<or> c \<ge> 1 then
        Ret floor_value (s\<lparr>lc_params := (lc_params s)(instrument := (lc_params s instrument)\<lparr>bm_u := coeffs\<rparr>)\<rparr>)
      else
        (case lc_multiply (lcmodel loc) (indexes (lc_dictionary cfg instrument))
                (light_curve cfg instrument
                   ((lc_params s instrument)\<lparr>bm_u := coeffs, bm_t0 := t0, bm_per := P, bm_rp := p,
                      bm_a := a, bm_inc := arccos c * 180 / pi, bm_ecc := e, bm_w := om\<rparr>)) of
           None \<Rightarrow> Exn
         | Some m \<Rightarrow>
             Go \<lparr>lcmodel = Some m, last_aP = Some (a, P)\<rparr>
                (s\<lparr>lc_params := (lc_params s)(instrument :=
                   (lc_params s instrument)\<lparr>bm_u := coeffs, bm_t0 := t0, bm_per := P, bm_rp := p,
                      bm_a := a, bm_inc := arccos c * 180 / pi, bm_ecc := e, bm_w := om\<rparr>)\<rparr>)))"
  unfolding transit_planet_def Let_def assms(6)
  using assms(1-5) by (simp del: times_divide_eq_left times_divide_eq_right times_divide_times_eq
      divide_divide_eq_left divide_divide_eq_right split: option.splits)

lemma transit_planet_ecc_blocked:
  assumes "nth_opt (numbering_transit cfg) k = Some i"
    and "resolve_ecc_transit cfg pri i = Some (e, om)"
    and "e > ecclim"
    and "priors s = pri"
  shows "transit_planet cfg instrument k loc s \<noteq> Go loc' s'"
  using assms by (simp add: transit_planet_def Let_def split: option.splits prod.splits)

lemma rv_planet_ecc_blocked:
  assumes "nth_opt (numbering_rv cfg) k = Some i"
    and "resolve_ecc_rv cfg pri i = Some (e, om)"
    and "e > 1"
    and "priors s = pri"
  shows "rv_planet cfg k loc s \<noteq> Go loc' s'"
  using assms by (simp add: rv_planet_def split: option.splits prod.splits Option.bind_splits)

lemma assign_lc1:
  "assign_cvalues (priors (base_store\<lparr>priors := lc1_registry\<rparr>)) (lc1_cube P e b) 0
     = Some (lc1_sample P e b)"
  by (simp add: example_defs example_defs2 nth_opt_def)

lemma assign_rv1:
  "assign_cvalues (priors (base_store\<lparr>priors := rv1_registry\<rparr>)) (rv1_cube e) 0 = Some (rv1_sample e)"
  by (simp add: example_defs example_defs2 nth_opt_def)

lemma lc1_facts:
  "lcfilename lc1_config" "inames_lc lc1_config \<noteq> []" "0 < n_transit lc1_config"
  "nth_opt (numbering_transit lc1_config) 0 = Some 1"
  "resolve_ecc_transit lc1_config (lc1_sample P e b) 1 = Some (e, 90)"
  "planet_geometry lc1_config (lc1_sample P e b) 1 = Some (15, b, 1 / 10, 0, P)"
  "ld_coefficients lc1_config (lc1_sample P e b) ''TESS'' = Some [1 / 2]"
  by (simp_all add: example_defs example_defs2 nth_opt_def resolve_ecc_transit_def
        planet_geometry_def ld_coefficients_def cvalue_of_def)

lemma rv1_facts:
  "rvfilename rv1_config" "0 < n_rv rv1_config"
  "nth_opt (numbering_rv rv1_config) 0 = Some 1"
  "resolve_ecc_rv rv1_config (rv1_sample e) 1 = Some (e, 0)"
  by (simp_all add: example_defs example_defs2 nth_opt_def resolve_ecc_rv_def cvalue_of_def)

lemma returned_not_Exn: "returned r = Some v \<Longrightarrow> r \<noteq> Exn"
  by (auto simp: returned_def)

lemma returned_Ret: "r = Ret v s \<Longrightarrow> returned r = Some v"
  by (simp add: returned_def)

lemma lc1_floor_096:
  "returned (loglike lc1_config (lc1_cube 3 (96 / 100) 0) (base_store\<lparr>priors := lc1_registry\<rparr>))
     = Some floor_value"
  by (simp add: loglike_defs example_defs example_defs2 upt_small)

lemma rv1_floor:
  "returned (loglike rv1_config (rv1_cube (3 / 2)) (base_store\<lparr>priors := rv1_registry\<rparr>))
     = Some floor_value"
  by (simp add: loglike_defs example_defs example_defs2 upt_small)

text \<open>
  Claim C6, as amended. The eccentricity gates are strict comparisons with the limits. An
  evaluation in which a transit planet that is iterated has \<open>e > 0.95\<close>, or a
  radial-velocity planet has \<open>e > 1\<close>, and which raises no exception, returns \<^verbatim>\<open>-1e101\<close>
  (\<open>e = 0.96\<close> floors). A transit planet with \<open>e \<le> 0.95\<close> (so \<open>e = 0.94\<close>, \<open>e = 0.95\<close> and
  negative values) and a feasible geometry is not rejected, and a radial-velocity planet
  with \<open>e \<le> 1\<close> is not rejected.
\<close>

theorem eccentricity_gates:
  assumes asg: "assign_cvalues (priors s0) cube 0 = Some pri"
  shows "(lcfilename cfg \<and> inames_lc cfg \<noteq> [] \<and> k < n_transit cfg
            \<and> nth_opt (numbering_transit cfg) k = Some i
            \<and> resolve_ecc_transit cfg pri i = Some (e, om) \<and> e > 95 / 100
            \<and> loglike cfg cube s0 \<noteq> Exn
          \<longrightarrow> (\<exists>s'. loglike cfg cube s0 = Ret floor_value s'))
       \<and> (rvfilename cfg \<and> k < n_rv cfg
            \<and> nth_opt (numbering_rv cfg) k = Some i
            \<and> resolve_ecc_rv cfg pri i = Some (e, om) \<and> e > 1
            \<and> loglike cfg cube s0 \<noteq> Exn
          \<longrightarrow> (\<exists>s'. loglike cfg cube s0 = Ret floor_value s'))
       \<and> (nth_opt (numbering_transit cfg) k = Some i
            \<and> resolve_ecc_transit cfg pri i = Some (e, om) \<and> e \<le> 95 / 100
            \<and> planet_geometry cfg pri i = Some (a, b, p, t0, P) \<and> a \<noteq> 0 \<and> e ^ 2 \<noteq> 1
            \<and> \<not> (b > 1 + p \<or> (b / a) * ((1 + e * sin (om * pi / 180)) / (1 - e ^ 2)) \<ge> 1)
          \<longrightarrow> (\<forall>instrument loc s v s'. priors s = pri
                 \<longrightarrow> transit_planet cfg instrument k loc s \<noteq> Ret v s'))
       \<and> (nth_opt (numbering_rv cfg) k = Some i
            \<and> resolve_ecc_rv cfg pri i = Some (e, om) \<and> e \<le> 1
          \<longrightarrow> (\<forall>loc s v s'. priors s = pri \<longrightarrow> rv_planet cfg k loc s \<noteq> Ret v s'))"
proof (intro conjI impI allI)
  {
    assume a: "lcfilename cfg \<and> inames_lc cfg \<noteq> [] \<and> k < n_transit cfg
            \<and> nth_opt (numbering_transit cfg) k = Some i
            \<and> resolve_ecc_transit cfg pri i = Some (e, om) \<and> e > 95 / 100
            \<and> loglike cfg cube s0 \<noteq> Exn"
    then have e: "e > ecclim" by (simp add: ecclim_def)
    have "loglike cfg cube s0 \<noteq> Go v s'" for v s'
      by (rule loglike_blocked_transit [OF asg, of cfg k])
        (use a transit_planet_ecc_blocked [OF _ _ e] in auto)
    from loglike_floor [OF asg this] a
    show "\<exists>s'. loglike cfg cube s0 = Ret floor_value s'" by blast
  }
  {
    assume a: "rvfilename cfg \<and> k < n_rv cfg
            \<and> nth_opt (numbering_rv cfg) k = Some i
            \<and> resolve_ecc_rv cfg pri i = Some (e, om) \<and> e > 1
            \<and> loglike cfg cube s0 \<noteq> Exn"
    have "loglike cfg cube s0 \<noteq> Go v s'" for v s'
      by (rule loglike_blocked_rv [OF asg, of cfg k])
        (use a rv_planet_ecc_blocked in auto)
    from loglike_floor [OF asg this] a
    show "\<exists>s'. loglike cfg cube s0 = Ret floor_value s'" by blast
  }
  {
    fix instrument loc and s :: store and v s'
    assume h: "nth_opt (numbering_transit cfg) k = Some i
            \<and> resolve_ecc_transit cfg pri i = Some (e, om) \<and> e \<le> 95 / 100
            \<and> planet_geometry cfg pri i = Some (a, b, p, t0, P) \<and> a \<noteq> 0 \<and> e ^ 2 \<noteq> 1
            \<and> \<not> (b > 1 + p \<or> (b / a) * ((1 + e * sin (om * pi / 180)) / (1 - e ^ 2)) \<ge> 1)"
      and s: "priors s = pri"
    define c where "c = (b / a) * ((1 + e * sin (om * pi / 180)) / (1 - e ^ 2))"
    from h have "e \<le> 95 / 100" by blast
    then have ok1: "\<not> e > ecclim" by (simp add: ecclim_def)
    from h have "\<not> b > 1 + p" "\<not> c \<ge> 1"
      unfolding c_def by blast+
    note ok = ok1 this
    show "transit_planet cfg instrument k loc s \<noteq> Ret v s'"
    proof (cases "ld_coefficients cfg pri instrument")
      case None
      with s h show ?thesis by (simp add: transit_planet_def)
    next
      case (Some coeffs)
      from h have g: "nth_opt (numbering_transit cfg) k = Some i"
        "planet_geometry cfg pri i = Some (a, b, p, t0, P)"
        "resolve_ecc_transit cfg pri i = Some (e, om)" by blast+
      show ?thesis
        unfolding transit_planet_unfold [OF g(1) Some g(2) g(3) s c_def]
        using ok by (simp split: option.splits)
    qed
  }
  {
    fix loc and s :: store and v s'
    assume "nth_opt (numbering_rv cfg) k = Some i
            \<and> resolve_ecc_rv cfg pri i = Some (e, om) \<and> e \<le> 1"
      and "priors s = pri"
    then show "rv_planet cfg k loc s \<noteq> Ret v s'"
      by (simp add: rv_planet_def split: option.splits Option.bind_splits)
  }
qed

theorem eccentricity_gates_witness:
  "(\<exists>s'. loglike lc1_config (lc1_cube 3 (96 / 100) 0) (base_store\<lparr>priors := lc1_registry\<rparr>)
           = Ret floor_value s')
   \<and> (\<exists>s'. loglike rv1_config (rv1_cube (3 / 2)) (base_store\<lparr>priors := rv1_registry\<rparr>)
           = Ret floor_value s')
   \<and> transit_planet lc1_config ''TESS'' 0 \<lparr>lcmodel = Some [1], last_aP = None\<rparr>
        (base_store\<lparr>priors := lc1_sample 3 (94 / 100) 0\<rparr>) \<noteq> Ret floor_value base_store
   \<and> rv_planet rv1_config 0 () (base_store\<lparr>priors := rv1_sample (1 / 2)\<rparr>) \<noteq> Ret floor_value base_store"
proof -
  note A = eccentricity_gates [OF assign_lc1 [of 3 "96 / 100" 0], where cfg = lc1_config and k = 0 and i = 1
             and e = "96 / 100" and om = 90 and a = 15 and b = 0 and p = "1 / 10" and ?t0.0 = 0
             and P = 3]
  note B = eccentricity_gates [OF assign_rv1 [of "3 / 2"], where cfg = rv1_config and k = 0 and i = 1
             and e = "3 / 2" and om = 0 and a = 15 and b = 0 and p = "1 / 10" and ?t0.0 = 0
             and P = 3]
  note C = eccentricity_gates [OF assign_lc1 [of 3 "94 / 100" 0], where cfg = lc1_config and k = 0 and i = 1
             and e = "94 / 100" and om = 90 and a = 15 and b = 0 and p = "1 / 10" and ?t0.0 = 0
             and P = 3]
  note D = eccentricity_gates [OF assign_rv1 [of "1 / 2"], where cfg = rv1_config and k = 0 and i = 1
             and e = "1 / 2" and om = 0 and a = 15 and b = 0 and p = "1 / 10" and ?t0.0 = 0
             and P = 3]
  have c1: "\<exists>s'. loglike lc1_config (lc1_cube 3 (96 / 100) 0) (base_store\<lparr>priors := lc1_registry\<rparr>)
           = Ret floor_value s'"
    using A lc1_facts returned_not_Exn [OF lc1_floor_096] by simp
  have c2: "\<exists>s'. loglike rv1_config (rv1_cube (3 / 2)) (base_store\<lparr>priors := rv1_registry\<rparr>)
           = Ret floor_value s'"
    using B rv1_facts returned_not_Exn [OF rv1_floor] by simp
  have c3: "transit_planet lc1_config ''TESS'' 0 \<lparr>lcmodel = Some [1], last_aP = None\<rparr>
        (base_store\<lparr>priors := lc1_sample 3 (94 / 100) 0\<rparr>) \<noteq> Ret floor_value base_store"
    using C lc1_facts by (simp add: power2_eq_square)
  have c4: "rv_planet rv1_config 0 () (base_store\<lparr>priors := rv1_sample (1 / 2)\<rparr>) \<noteq> Ret floor_value base_store"
    using D rv1_facts by simp
  from c1 c2 c3 c4 show ?thesis by simp
qed

text \<open>
  Claim C6 as stated fails at the limits: a transit eccentricity of exactly \<open>0.95\<close>, which
  lies outside \<open>[0, 0.95)\<close>, and a radial-velocity eccentricity of exactly \<open>1\<close>, which is
  not below \<open>1\<close>, are evaluated to the end and the likelihood \<open>-ln(2\<pi>)/2\<close> is returned.
\<close>

theorem eccentricity_at_limit_evaluated:
  "returned (loglike lc1_config (lc1_cube 3 (95 / 100) 0) (base_store\<lparr>priors := lc1_registry\<rparr>))
     = Some (- (ln (2 * pi) / 2))
   \<and> returned (loglike rv1_config (rv1_cube 1) (base_store\<lparr>priors := rv1_registry\<rparr>))
     = Some (- (ln (2 * pi) / 2))
   \<and> - (ln (2 * pi) / 2) \<noteq> floor_value"
  by (simp add: ln_2pi_small loglike_defs example_defs example_defs2 upt_small log2pi_def)

text \<open>
  Claim C3. For every transit planet that an evaluation iterates (\<open>a \<noteq> 0\<close>, \<open>e\<^sup>2 \<noteq> 1\<close>), let
  \<open>ecc_factor = (1 + e sin \<omega>) / (1 - e\<^sup>2)\<close> and \<open>inc_inv = (b / a) ecc_factor\<close>, where \<open>\<omega>\<close> is
  held in degrees, the unit of the transit model, so that its sine is \<open>sin (om \<pi> / 180)\<close>.
  If \<open>b > 1 + p\<close> or \<open>inc_inv \<ge> 1\<close>, the planet's iteration returns \<^verbatim>\<open>-1e101\<close>, and so does
  every evaluation that iterates the planet and raises no exception. Otherwise, for a planet
  that the eccentricity gate lets through (\<open>e \<le> 0.95\<close>), the angle \<open>arccos(inc_inv)\<close>, in
  degrees as well, is written to the instrument's parameter object as the inclination,
  together with \<open>t0\<close>, \<open>P\<close>, \<open>p\<close>, \<open>a\<close>, \<open>e\<close> and \<open>\<omega>\<close>, and the transit model is evaluated on
  that object (for \<open>inc_inv < - 1\<close> the arc cosine of numpy is not-a-number).
\<close>

theorem inclination_gate:
  assumes asg: "assign_cvalues (priors s0) cube 0 = Some pri"
    and nth: "nth_opt (numbering_transit cfg) k = Some i"
    and ecc: "resolve_ecc_transit cfg pri i = Some (e, om)"
    and geo: "planet_geometry cfg pri i = Some (a, b, p, t0, P)"
    and reals: "a \<noteq> 0" "e ^ 2 \<noteq> 1"
    and ecc_factor: "ecc_factor = (1 + e * sin (om * pi / 180)) / (1 - e ^ 2)"
    and inc_inv: "inc_inv = (b / a) * ecc_factor"
  shows "(b > 1 + p \<or> inc_inv \<ge> 1 \<longrightarrow>
            (\<forall>instrument loc s coeffs.
                priors s = pri \<and> ld_coefficients cfg pri instrument = Some coeffs \<longrightarrow>
                transit_planet cfg instrument k loc s =
                  Ret floor_value (s\<lparr>lc_params := (lc_params s)
                     (instrument := (lc_params s instrument)\<lparr>bm_u := coeffs\<rparr>)\<rparr>))
          \<and> (lcfilename cfg \<and> inames_lc cfg \<noteq> [] \<and> k < n_transit cfg
                \<and> loglike cfg cube s0 \<noteq> Exn
              \<longrightarrow> (\<exists>s'. loglike cfg cube s0 = Ret floor_value s')))
       \<and> (\<not> (b > 1 + p \<or> inc_inv \<ge> 1) \<and> e \<le> 95 / 100 \<and> - 1 \<le> inc_inv \<longrightarrow>
            (\<forall>instrument loc s coeffs.
                priors s = pri \<and> ld_coefficients cfg pri instrument = Some coeffs \<longrightarrow>
                transit_planet cfg instrument k loc s =
                  (let params = (lc_params s instrument)
                         \<lparr>bm_u := coeffs, bm_t0 := t0, bm_per := P, bm_rp := p, bm_a := a,
                          bm_inc := arccos inc_inv * 180 / pi, bm_ecc := e, bm_w := om\<rparr>
                   in case lc_multiply (lcmodel loc) (indexes (lc_dictionary cfg instrument))
                             (light_curve cfg instrument params) of
                        None \<Rightarrow> Exn
                      | Some m \<Rightarrow>
                          Go \<lparr>lcmodel = Some m, last_aP = Some (a, P)\<rparr>
                             (s\<lparr>lc_params := (lc_params s)(instrument := params)\<rparr>))))"
proof -
  have c: "inc_inv = (b / a) * ((1 + e * sin (om * pi / 180)) / (1 - e ^ 2))"
    unfolding inc_inv ecc_factor ..
  note unf = transit_planet_unfold [OF nth _ geo ecc _ c]
  have bad: "transit_planet cfg instrument k loc s =
               Ret floor_value (s\<lparr>lc_params := (lc_params s)
                  (instrument := (lc_params s instrument)\<lparr>bm_u := coeffs\<rparr>)\<rparr>)"
    if "b > 1 + p \<or> inc_inv \<ge> 1" "priors s = pri" "ld_coefficients cfg pri instrument = Some coeffs"
    for instrument loc s coeffs
    unfolding unf [OF that(3) that(2)] using that(1) by auto
  have blocked: "transit_planet cfg instrument k loc s \<noteq> Go loc' s'"
    if "b > 1 + p \<or> inc_inv \<ge> 1" "priors s = pri" for instrument loc s loc' s'
  proof (cases "ld_coefficients cfg pri instrument")
    case None
    with that(2) nth show ?thesis by (simp add: transit_planet_def)
  next
    case (Some coeffs)
    from bad [OF that(1) that(2) Some] show ?thesis by simp
  qed
  have floor: "\<exists>s'. loglike cfg cube s0 = Ret floor_value s'"
    if "b > 1 + p \<or> inc_inv \<ge> 1"
      "lcfilename cfg \<and> inames_lc cfg \<noteq> [] \<and> k < n_transit cfg \<and> loglike cfg cube s0 \<noteq> Exn"
  proof -
    have "loglike cfg cube s0 \<noteq> Go v s'" for v s'
      by (rule loglike_blocked_transit [OF asg, of cfg k]) (use that blocked in auto)
    from loglike_floor [OF asg this] that(2) show ?thesis by blast
  qed
  have good: "transit_planet cfg instrument k loc s =
                  (let params = (lc_params s instrument)
                         \<lparr>bm_u := coeffs, bm_t0 := t0, bm_per := P, bm_rp := p, bm_a := a,
                          bm_inc := arccos inc_inv * 180 / pi, bm_ecc := e, bm_w := om\<rparr>
                   in case lc_multiply (lcmodel loc) (indexes (lc_dictionary cfg instrument))
                             (light_curve cfg instrument params) of
                        None \<Rightarrow> Exn
                      | Some m \<Rightarrow>
                          Go \<lparr>lcmodel = Some m, last_aP = Some (a, P)\<rparr>
                             (s\<lparr>lc_params := (lc_params s)(instrument := params)\<rparr>))"
    if "\<not> (b > 1 + p \<or> inc_inv \<ge> 1)" "e \<le> 95 / 100" "priors s = pri"
      "ld_coefficients cfg pri instrument = Some coeffs"
    for instrument loc s coeffs
  proof -
    have nlim: "\<not> e > ecclim" using that(2) by (simp add: ecclim_def)
    show ?thesis
      unfolding unf [OF that(4) that(3)] Let_def using that(1) nlim by auto
  qed
  show ?thesis
    using bad floor good by blast
qed

lemma lc1_floor_b2:
  "returned (loglike lc1_config (lc1_cube 3 0 2) (base_store\<lparr>priors := lc1_registry\<rparr>))
     = Some floor_value"
  by (simp add: loglike_defs example_defs example_defs2 upt_small)

theorem inclination_gate_witness:
  "(\<exists>s'. loglike lc1_config (lc1_cube 3 0 2) (base_store\<lparr>priors := lc1_registry\<rparr>)
           = Ret floor_value s')
   \<and> transit_planet lc1_config ''TESS'' 0 \<lparr>lcmodel = Some [1], last_aP = None\<rparr>
        (base_store\<lparr>priors := lc1_sample 3 0 0\<rparr>)
     = Go \<lparr>lcmodel = Some [1], last_aP = Some (15, 3)\<rparr>
         (base_store\<lparr>priors := lc1_sample 3 0 0,
            lc_params := (lc_params base_store)(''TESS'' :=
              \<lparr>bm_t0 = 0, bm_per = 3, bm_rp = 1 / 10, bm_a = 15, bm_inc = arccos 0 * 180 / pi,
               bm_ecc = 0, bm_w = 90, bm_u = [1 / 2]\<rparr>)\<rparr>)
   \<and> arccos 0 * 180 / pi = (90 :: real)"
proof -
  note A = inclination_gate [OF assign_lc1 [of 3 0 2] lc1_facts(4) lc1_facts(5) lc1_facts(6) _ _ refl refl]
  note B = inclination_gate [OF assign_lc1 [of 3 0 0] lc1_facts(4) lc1_facts(5) lc1_facts(6) _ _ refl refl]
  have c1: "\<exists>s'. loglike lc1_config (lc1_cube 3 0 2) (base_store\<lparr>priors := lc1_registry\<rparr>)
           = Ret floor_value s'"
    using A lc1_facts(1,2,3) returned_not_Exn [OF lc1_floor_b2] by simp
  have c2: "transit_planet lc1_config ''TESS'' 0 \<lparr>lcmodel = Some [1], last_aP = None\<rparr>
        (base_store\<lparr>priors := lc1_sample 3 0 0\<rparr>)
     = Go \<lparr>lcmodel = Some [1], last_aP = Some (15, 3)\<rparr>
         (base_store\<lparr>priors := lc1_sample 3 0 0,
            lc_params := (lc_params base_store)(''TESS'' :=
              \<lparr>bm_t0 = 0, bm_per = 3, bm_rp = 1 / 10, bm_a = 15, bm_inc = arccos 0 * 180 / pi,
               bm_ecc = 0, bm_w = 90, bm_u = [1 / 2]\<rparr>)\<rparr>)"
    using B lc1_facts(7) [of 3 0 0]
    by (simp add: Let_def lc_multiply_def gather_def scatter_def broadcast2_def base_config_def
          lc1_config_def base_store_def)
  have c3: "arccos 0 * 180 / pi = (90 :: real)" by simp
  from c1 c2 c3 show ?thesis by simp
qed

subsection \<open>What an early return leaves in the store\<close>

lemmas example_defs3 = lcrv_config_def lcrv_names_def lcrv_cube_def lcrv_store_def lcrv_rejected_def

lemma lcrv_eval: "loglike lcrv_config lcrv_cube lcrv_store = Ret floor_value lcrv_rejected"
  by (simp add: loglike_defs example_defs example_defs3 upt_small log2pi_def)


lemma assign_cvalues_again:
  "assign_cvalues pri c pc = Some pri' \<Longrightarrow> assign_cvalues pri' c2 pc2 = assign_cvalues pri c2 pc2"
proof (induction pri arbitrary: pri' pc pc2)
  case Nil
  then show ?case by simp
next
  case (Cons x pri)
  obtain pname info where x: "x = (pname, info)" by (cases x)
  show ?case
  proof (cases "ptype info \<noteq> ''fixed''")
    case True
    with Cons.prems x obtain v rest where
      r: "nth_opt c pc = Some v" "assign_cvalues pri c (pc + 1) = Some rest"
         "pri' = (pname, info\<lparr>cvalue := v\<rparr>) # rest"
      by (auto split: option.splits)
    from Cons.IH [OF r(2)] True x r(3) show ?thesis
      by (simp split: option.splits)
  next
    case False
    with Cons.prems x obtain rest where
      r: "assign_cvalues pri c pc = Some rest" "pri' = (pname, info) # rest"
      by auto
    from Cons.IH [OF r(1)] False x r(2) show ?thesis by simp
  qed
qed

text \<open>The position in the cube of the parameter at position \<open>j\<close> of the registry.\<close>

lemma assign_cvalues_nth:
  assumes "assign_cvalues pri cube pc = Some pri'" and "j < length pri"
  shows "length pri' = length pri \<and> fst (pri' ! j) = fst (pri ! j)
       \<and> (if ptype (snd (pri ! j)) \<noteq> ''fixed''
          then snd (pri' ! j) = (snd (pri ! j))
                 \<lparr>cvalue := cube ! (pc + length (filter (\<lambda>x. ptype (snd x) \<noteq> ''fixed'') (take j pri)))\<rparr>
          else snd (pri' ! j) = snd (pri ! j))"
  using assms
proof (induction pri arbitrary: pri' pc j)
  case Nil
  then show ?case by simp
next
  case (Cons x pri)
  obtain pname info where x: "x = (pname, info)" by (cases x)
  show ?case
  proof (cases "ptype info \<noteq> ''fixed''")
    case True
    with Cons.prems x obtain v rest where
      r: "nth_opt cube pc = Some v" "assign_cvalues pri cube (pc + 1) = Some rest"
         "pri' = (pname, info\<lparr>cvalue := v\<rparr>) # rest"
      by (auto split: option.splits)
    from r(1) have v: "v = cube ! pc" by (auto simp: nth_opt_def split: if_splits)
    show ?thesis
    proof (cases j)
      case 0
      with x True r v show ?thesis
        using Cons.IH [OF r(2)] by (cases pri) (auto split: option.splits)
    next
      case (Suc m)
      with Cons.prems have "m < length pri" by simp
      from Cons.IH [OF r(2) this] Suc x True r(3) show ?thesis by simp
    qed
  next
    case False
    with Cons.prems x obtain rest where
      r: "assign_cvalues pri cube pc = Some rest" "pri' = (pname, info) # rest"
      by auto
    show ?thesis
    proof (cases j)
      case 0
      have "length rest = length pri"
      proof (cases pri)
        case Nil
        with r(1) show ?thesis by simp
      next
        case (Cons y ys)
        then have "0 < length pri" by simp
        from Cons.IH [OF r(1) this] show ?thesis by simp
      qed
      with 0 x False r show ?thesis by simp
    next
      case (Suc m)
      with Cons.prems have "m < length pri" by simp
      from Cons.IH [OF r(1) this] Suc x False r(2) show ?thesis by simp
    qed
  qed
qed

lemma period_step_Go_same_store: "period_step numbering n cP s = Go c s' \<Longrightarrow> s' = s"
  by (simp add: period_step_def split: option.splits if_splits)

lemma period_step_Ret_same_store: "period_step numbering n cP s = Ret v s' \<Longrightarrow> s' = s"
  by (simp add: period_step_def split: option.splits if_splits)

lemma period_gate_same_store:
  assumes "period_gate numbering n s = Ret v s' \<or> period_gate numbering n s = Go c s'"
  shows "s' = s"
proof -
  have "(for_each (period_step numbering) [0..<n] 0 s = Go c s' \<longrightarrow> s' = s)
      \<and> (for_each (period_step numbering) [0..<n] 0 s = Ret v s' \<longrightarrow> s' = s \<and> True)"
  proof (rule for_each_invariant [where I = "\<lambda>t. t = s" and Q = "\<lambda>v. True"])
    fix x loc t loc' t'
    assume "t = s" "period_step numbering x loc t = Go loc' t'"
    then show "t' = s" using period_step_Go_same_store by blast
  next
    fix x loc t w t'
    assume "t = s" "period_step numbering x loc t = Ret w t'"
    then show "t' = s \<and> True" using period_step_Ret_same_store by blast
  next
    show "s = s" by simp
  qed
  with assms show ?thesis by (auto simp: period_gate_def)
qed

lemma rv_planet_Ret_same_store: "rv_planet cfg n loc s = Ret v s' \<Longrightarrow> s' = s"
  by (simp add: rv_planet_def split: option.splits prod.splits if_splits)

lemma rv_likelihood_not_Ret: "rv_likelihood cfg rvmodel instrument ll s \<noteq> Ret v s'"
  by (simp add: rv_likelihood_def split: option.splits prod.splits)

lemma rv_gp_not_Ret: "rv_gp cfg ll s \<noteq> Ret v s'"
  by (simp add: rv_gp_def split: option.splits)

lemma for_each_not_Ret:
  assumes "\<And>x loc s v s'. body x loc s \<noteq> Ret v s'"
  shows "for_each body xs loc s \<noteq> Ret v s'"
proof
  assume "for_each body xs loc s = Ret v s'"
  from for_each_Ret_prefix [OF this] obtain x loc1 s1 where "body x loc1 s1 = Ret v s'" by blast
  with assms show False by simp
qed

lemma upt_split:
  assumes "[0..<n] = ys @ x # zs"
  shows "ys = [0..<x] \<and> x < n"
proof -
  from assms have "length [0..<n] = length (ys @ x # zs)" by simp
  then have len: "length ys < n" by simp
  from assms have "[0..<n] ! length ys = x" by simp
  with len have x: "x = length ys" by simp
  from assms have "take (length ys) [0..<n] = ys" by simp
  with len x show ?thesis by (simp add: take_upt)
qed

text \<open>An early return of the radial-velocity part comes from the gate or from a planet of the
  loop; the store it carries is the one left by the planets before.\<close>

lemma rv_part_Ret:
  assumes "rv_part cfg ll s = Ret v s'"
  shows "\<exists>k\<le>n_rv cfg. for_each (rv_planet cfg) [0..<k] () s = Go () s'"
proof -
  from assms have sec: "rv_section cfg s = Ret v s'"
    unfolding rv_part_def
    by (auto dest!: then_do_Ret simp: for_each_not_Ret [OF rv_likelihood_not_Ret] rv_gp_not_Ret)
  then have rv: "rvfilename cfg"
    by (auto simp: rv_section_def split: if_splits)
  from sec rv have "period_gate (numbering_rv cfg) (n_rv cfg) s = Ret v s'
      \<or> (\<exists>cP s1. period_gate (numbering_rv cfg) (n_rv cfg) s = Go cP s1
            \<and> for_each (rv_planet cfg) [0..<n_rv cfg] () s1 = Ret v s')"
    by (auto simp: rv_section_def dest!: then_do_Ret)
  then show ?thesis
  proof
    assume "period_gate (numbering_rv cfg) (n_rv cfg) s = Ret v s'"
    then have "s' = s" using period_gate_same_store by blast
    then have "for_each (rv_planet cfg) [0..<0] () s = Go () s'" by simp
    then show ?thesis by blast
  next
    assume "\<exists>cP s1. period_gate (numbering_rv cfg) (n_rv cfg) s = Go cP s1
            \<and> for_each (rv_planet cfg) [0..<n_rv cfg] () s1 = Ret v s'"
    then obtain cP s1 where g: "period_gate (numbering_rv cfg) (n_rv cfg) s = Go cP s1"
      and l: "for_each (rv_planet cfg) [0..<n_rv cfg] () s1 = Ret v s'" by blast
    from g have s1: "s1 = s" using period_gate_same_store by blast
    from for_each_Ret_prefix [OF l] obtain ys x zs loc1 s2 where
      p: "[0..<n_rv cfg] = ys @ x # zs" "for_each (rv_planet cfg) ys () s1 = Go loc1 s2"
         "rv_planet cfg x loc1 s2 = Ret v s'"
      by blast
    from upt_split [OF p(1)] have ys: "ys = [0..<x]" "x < n_rv cfg" by simp_all
    from rv_planet_Ret_same_store [OF p(3)] have "s' = s2" .
    with p(2) ys s1 have "for_each (rv_planet cfg) [0..<x] () s = Go () s'" by simp
    with ys(2) show ?thesis by (intro exI [of _ x]) simp
  qed
qed

text \<open>
  Claim C10. Rejection is not atomic with respect to the shared store. When \<^verbatim>\<open>loglike\<close>
  leaves through an early return, the value is \<^verbatim>\<open>-1e101\<close> and the store it leaves holds the
  registry with the rejected sample assigned: every free parameter has the value of its
  cell of the cube. If the photometric part went through, the store is exactly the one
  obtained by running the radial-velocity planet loop on the first \<open>k\<close> planets, so the
  \<^verbatim>\<open>radvel\<close> parameters written by them stay; nothing is restored. A later evaluation
  assigns the registry as if the rejected sample had never been there, which is what
  correctness relies on.
\<close>

theorem rejection_keeps_sample:
  assumes ret: "loglike cfg cube s0 = Ret v s'"
  shows "v = floor_value
       \<and> assign_cvalues (priors s0) cube 0 = Some (priors s')
       \<and> (\<forall>j<length (priors s0). ptype (snd (priors s0 ! j)) \<noteq> ''fixed'' \<longrightarrow>
            cvalue (snd (priors s' ! j)) =
              cube ! length (filter (\<lambda>x. ptype (snd x) \<noteq> ''fixed'') (take j (priors s0))))
       \<and> (\<forall>ll s1. photometric_part cfg (s0\<lparr>priors := priors s'\<rparr>) = Go ll s1 \<longrightarrow>
            (\<exists>k\<le>n_rv cfg. for_each (rv_planet cfg) [0..<k] () s1 = Go () s'))
       \<and> (\<forall>cube2. assign_cvalues (priors s') cube2 0 = assign_cvalues (priors s0) cube2 0)"
proof -
  from ret obtain pri where asg: "assign_cvalues (priors s0) cube 0 = Some pri"
    by (auto simp: loglike_def split: option.splits)
  from keeps_priors_loglike [OF asg, of cfg] ret have v: "v = floor_value" and p: "priors s' = pri"
    by simp_all
  have nth: "cvalue (snd (priors s' ! j)) =
              cube ! length (filter (\<lambda>x. ptype (snd x) \<noteq> ''fixed'') (take j (priors s0)))"
    if "j < length (priors s0)" "ptype (snd (priors s0 ! j)) \<noteq> ''fixed''" for j
    using assign_cvalues_nth [OF asg that(1)] that(2) p by simp
  have rvp: "\<exists>k\<le>n_rv cfg. for_each (rv_planet cfg) [0..<k] () s1 = Go () s'"
    if "photometric_part cfg (s0\<lparr>priors := priors s'\<rparr>) = Go ll s1" for ll s1
  proof -
    from ret asg p that have "rv_part cfg ll s1 = Ret v s'"
      by (simp add: loglike_def)
    then show ?thesis by (rule rv_part_Ret)
  qed
  from v asg p nth rvp assign_cvalues_again [OF asg] show ?thesis
    by (auto simp del: for_each.simps)
qed

theorem rejection_keeps_sample_witness:
  "loglike lcrv_config lcrv_cube lcrv_store = Ret floor_value lcrv_rejected
   \<and> assign_cvalues (priors lcrv_store) lcrv_cube 0 = Some (priors lcrv_rejected)
   \<and> cvalue_of (priors lcrv_rejected) ''ecc_p2'' = Some (3 / 2)
   \<and> radvel_params lcrv_rejected ''per1'' = Some 3
   \<and> radvel_params lcrv_rejected ''per2'' = None"
proof -
  from rejection_keeps_sample [OF lcrv_eval]
  have "assign_cvalues (priors lcrv_store) lcrv_cube 0 = Some (priors lcrv_rejected)"
    by blast
  with lcrv_eval show ?thesis
    by (simp add: example_defs3 base_store_def sampled_def cvalue_of_def)
qed

subsection \<open>GP parameter vectors\<close>

lemmas example_defs4 = celerite_groups_def celerite_lc_config_def celerite_rv_config_def
  celerite_registry_def

lemma set_item_length: "set_item v k x = Some v' \<Longrightarrow> length v' = length v"
  by (auto simp: set_item_def split: if_splits)

lemma set_item_nth: "set_item v k x = Some v' \<Longrightarrow> j \<noteq> k \<Longrightarrow> v' ! j = v ! j"
  by (auto simp: set_item_def split: if_splits)

lemma set_item_Some: "k < length v \<Longrightarrow> set_item v k x = Some (v[k := x])"
  by (simp add: set_item_def)

text \<open>The photometric half of claim C8: the vector of five entries.\<close>

lemma celerite_lc_vector:
  "do { v0 \<leftarrow> init_lc_GPVector (lc_dictionary celerite_lc_config ''TESS'');
        lc_gp_vector celerite_lc_config (celerite_registry ''TESS'') ''TESS'' v0 }
     = Some [ln 2, ln 5, ln 3, ln 1, ln (100 * (1 / 10 ^ 6))]"
  by (simp add: init_lc_GPVector_def lc_gp_vector_def gp_cvalue_def cvalue_of_def set_item_def
        example_defs4 base_config_def sampled_def eval_nat_numeral)

text \<open>
  Claim C8 says that the marshaled vector of the celerite quasi-periodic kernel has five
  entries for photometry and four for radial velocities. The set-up allocates five cells
  for radial velocities too, and \<^verbatim>\<open>loglike\<close> writes the cells \<open>0\<close> to \<open>3\<close> only: for every
  configuration with this kernel the vector handed to the GP object has length \<open>5\<close>, namely
  \<open>[log B, log L, log Prot, log C, 0]\<close>.
\<close>

theorem celerite_rv_vector_five_entries:
  assumes kernel: "rv_GPType cfg = ''CeleriteQPKernel''"
    and init: "init_rv_GPVector (rv_GPType cfg) = Some v0"
    and vec: "rv_gp_vector cfg pri v0 = Some v"
  shows "length v = 5 \<and> v ! 4 = 0
       \<and> (\<exists>B L Prot C. gp_cvalue (rv_GP_group cfg) pri ''GP_B'' = Some B
             \<and> gp_cvalue (rv_GP_group cfg) pri ''GP_L'' = Some L
             \<and> gp_cvalue (rv_GP_group cfg) pri ''GP_Prot'' = Some Prot
             \<and> gp_cvalue (rv_GP_group cfg) pri ''GP_C'' = Some C
             \<and> v = [ln B, ln L, ln Prot, ln C, 0])"
proof -
  from kernel init have v0: "v0 = [0, 0, 0, 0, 0]"
    by (simp add: init_rv_GPVector_def eval_nat_numeral)
  from vec kernel show ?thesis
    unfolding v0
    by (auto simp: rv_gp_vector_def set_item_def Let_def split: Option.bind_splits)
qed

theorem celerite_rv_vector_five_entries_witness:
  "do { v0 \<leftarrow> init_rv_GPVector (rv_GPType celerite_rv_config);
        rv_gp_vector celerite_rv_config (celerite_registry ''rv'') v0 }
     = Some [ln 2, ln 5, ln 3, ln 1, 0]
   \<and> length [ln 2, ln 5, ln 3, ln 1, 0 :: real] = 5"
proof -
  have k: "rv_GPType celerite_rv_config = ''CeleriteQPKernel''"
    by (simp add: example_defs4 base_config_def)
  have i: "init_rv_GPVector (rv_GPType celerite_rv_config) = Some [0, 0, 0, 0, 0]"
    by (simp add: k init_rv_GPVector_def eval_nat_numeral)
  have v: "rv_gp_vector celerite_rv_config (celerite_registry ''rv'') [0, 0, 0, 0, 0]
             = Some [ln 2, ln 5, ln 3, ln 1, 0]"
    by (simp add: rv_gp_vector_def gp_cvalue_def cvalue_of_def set_item_def
          example_defs4 base_config_def sampled_def)
  from celerite_rv_vector_five_entries [OF k i v] i v show ?thesis by simp
qed

subsection \<open>The prior transform\<close>

lemmas example_defs5 = example_utils_def kind_entry_def supported_registry_def
  unsupported_registry_def supported_kinds_def

lemma transform_prior_PyNone:
  "transform_prior U x info = Some PyNone \<longleftrightarrow> ptype info \<notin> supported_kinds"
  by (auto simp: transform_prior_def supported_kinds_def Let_def split: Option.bind_splits)

lemma transform_prior_supported:
  assumes "ptype info \<in> supported_kinds" and "transform_prior U x info = Some v"
  obtains y where "v = PyFloat y"
  using assms transform_prior_PyNone [of U x info] by (cases v) auto

lemma transform_prior_two_values:
  assumes "ptype info \<in> supported_kinds" and "2 \<le> length (pvalue info)"
  shows "\<exists>y. transform_prior U x info = Some (PyFloat y)"
  using assms by (auto simp: transform_prior_def supported_kinds_def Let_def nth_opt_def)

lemma set_cell_PyFloat:
  "set_cell d target i (PyFloat y) = (if i < length target then Inr (target[i := Val y]) else Inl IndexError)"
  by (simp add: set_cell_def)

lemma NaN_not_in_update:
  "NaN \<notin> set target \<Longrightarrow> NaN \<notin> set (target[i := Val y])"
  using set_update_subset_insert [of target i "Val y"] by auto

text \<open>On a registry whose kinds are all supported or \<^verbatim>\<open>'fixed'\<close>, the loop never assigns
  \<^verbatim>\<open>None\<close>: it raises no TypeError and stores no not-a-number.\<close>

lemma prior_values_no_TypeError:
  assumes "\<forall>e\<in>set pri. ptype (snd e) \<in> insert ''fixed'' supported_kinds"
  shows "prior_values U d pri cube pc target \<noteq> Inl TypeError"
  using assms
proof (induction pri arbitrary: pc target)
  case Nil
  then show ?case by simp
next
  case (Cons e pri)
  obtain pname info where e: "e = (pname, info)" by (cases e)
  from Cons.prems have rest: "\<forall>e\<in>set pri. ptype (snd e) \<in> insert ''fixed'' supported_kinds"
    by simp
  show ?case
  proof (cases "ptype info \<noteq> ''fixed''")
    case True
    with Cons.prems e have sup: "ptype info \<in> supported_kinds" by simp
    show ?thesis
    proof (cases "nth_opt cube pc")
      case None
      with e True show ?thesis by simp
    next
      case (Some x)
      show ?thesis
      proof (cases "transform_prior U x info")
        case None
        with e True Some show ?thesis by simp
      next
        case (Some v)
        from transform_prior_supported [OF sup Some] obtain y where v: "v = PyFloat y" .
        from Cons.IH [OF rest, of "pc + 1" "target[pc := Val y]"] e True \<open>nth_opt cube pc = Some x\<close> Some v
        show ?thesis by (simp add: set_cell_PyFloat)
      qed
    qed
  next
    case False
    with Cons.IH [OF rest, of pc target] e show ?thesis by simp
  qed
qed

lemma prior_values_no_NaN:
  assumes "\<forall>e\<in>set pri. ptype (snd e) \<in> insert ''fixed'' supported_kinds"
    and "prior_values U d pri cube pc target = Inr cs" and "NaN \<notin> set target"
  shows "NaN \<notin> set cs"
  using assms
proof (induction pri arbitrary: pc target)
  case Nil
  then show ?case by simp
next
  case (Cons e pri)
  obtain pname info where e: "e = (pname, info)" by (cases e)
  from Cons.prems(1) have rest: "\<forall>e\<in>set pri. ptype (snd e) \<in> insert ''fixed'' supported_kinds"
    by simp
  show ?case
  proof (cases "ptype info \<noteq> ''fixed''")
    case True
    with Cons.prems(1) e have sup: "ptype info \<in> supported_kinds" by simp
    from Cons.prems(2) e True obtain x v where
      x: "nth_opt cube pc = Some x" and tv: "transform_prior U x info = Some v"
      by (auto split: option.splits)
    from transform_prior_supported [OF sup tv] obtain y where v: "v = PyFloat y" .
    from Cons.prems(2) e True x tv v
    have "prior_values U d pri cube (pc + 1) (target[pc := Val y]) = Inr cs"
      by (simp add: set_cell_PyFloat split: if_splits)
    from Cons.IH [OF rest this NaN_not_in_update [OF Cons.prems(3)]] show ?thesis .
  next
    case False
    with Cons.prems(2) e have "prior_values U d pri cube pc target = Inr cs" by simp
    from Cons.IH [OF rest this Cons.prems(3)] show ?thesis .
  qed
qed

text \<open>When, moreover, the cube and the array have room for the free parameters and each
  free parameter has its two values, the loop runs to its end.\<close>

lemma prior_values_returns:
  assumes "\<forall>e\<in>set pri. ptype (snd e) \<in> insert ''fixed'' supported_kinds
              \<and> (ptype (snd e) \<noteq> ''fixed'' \<longrightarrow> 2 \<le> length (pvalue (snd e)))"
    and "pc + length (filter (\<lambda>e. ptype (snd e) \<noteq> ''fixed'') pri) \<le> length cube"
    and "pc + length (filter (\<lambda>e. ptype (snd e) \<noteq> ''fixed'') pri) \<le> length target"
  shows "\<exists>cs. prior_values U d pri cube pc target = Inr cs \<and> length cs = length target"
  using assms
proof (induction pri arbitrary: pc target)
  case Nil
  then show ?case by simp
next
  case (Cons e pri)
  obtain pname info where e: "e = (pname, info)" by (cases e)
  from Cons.prems(1) have rest: "\<forall>e\<in>set pri. ptype (snd e) \<in> insert ''fixed'' supported_kinds
              \<and> (ptype (snd e) \<noteq> ''fixed'' \<longrightarrow> 2 \<le> length (pvalue (snd e)))"
    by simp
  show ?case
  proof (cases "ptype info \<noteq> ''fixed''")
    case True
    with Cons.prems(1) e have sup: "ptype info \<in> supported_kinds" "2 \<le> length (pvalue info)"
      by simp_all
    from Cons.prems(2,3) e True have pc: "pc < length cube" "pc < length target"
      and room: "(pc + 1) + length (filter (\<lambda>e. ptype (snd e) \<noteq> ''fixed'') pri) \<le> length cube"
        "(pc + 1) + length (filter (\<lambda>e. ptype (snd e) \<noteq> ''fixed'') pri)
           \<le> length (target[pc := Val y])" for y
      by simp_all
    from transform_prior_two_values [OF sup, of U "cube ! pc"]
    obtain y where y: "transform_prior U (cube ! pc) info = Some (PyFloat y)" by blast
    from Cons.IH [OF rest room(1) room(2) [of y]]
    obtain cs where "prior_values U d pri cube (pc + 1) (target[pc := Val y]) = Inr cs"
      "length cs = length target" by auto
    with e True pc y show ?thesis by (simp add: nth_opt_def set_cell_PyFloat)
  next
    case False
    with Cons.prems(2,3) e
    have "pc + length (filter (\<lambda>e. ptype (snd e) \<noteq> ''fixed'') pri) \<le> length cube"
      "pc + length (filter (\<lambda>e. ptype (snd e) \<noteq> ''fixed'') pri) \<le> length target"
      by simp_all
    from Cons.IH [OF rest this] e False show ?thesis by simp
  qed
qed

lemma find_Some_in: "find P xs = Some x \<Longrightarrow> x \<in> set xs \<and> P x"
  by (induction xs) (auto split: if_splits)

lemma readpriors_Inr:
  "readpriors entries = Inr (pri, n) \<longleftrightarrow>
     (\<forall>e\<in>set entries. ptype (snd e) \<in> insert ''fixed'' supported_kinds)
     \<and> pri = entries \<and> n = length (filter (\<lambda>e. ptype (snd e) \<noteq> ''fixed'') entries)"
proof (cases "find (\<lambda>e. ptype (snd e) \<notin> insert ''fixed'' supported_kinds) entries")
  case None
  then have "\<forall>e\<in>set entries. ptype (snd e) \<in> insert ''fixed'' supported_kinds"
    unfolding find_None_iff by blast
  with None show ?thesis unfolding readpriors_def by auto
next
  case (Some e)
  from find_Some_in [OF Some]
  have "\<not> (\<forall>e\<in>set entries. ptype (snd e) \<in> insert ''fixed'' supported_kinds)" by blast
  with Some show ?thesis unfolding readpriors_def by simp
qed

lemma readpriors_Inl:
  "(\<exists>err. readpriors entries = Inl err) \<longleftrightarrow>
     (\<exists>e\<in>set entries. ptype (snd e) \<notin> insert ''fixed'' supported_kinds)"
proof (cases "find (\<lambda>e. ptype (snd e) \<notin> insert ''fixed'' supported_kinds) entries")
  case None
  then have "\<forall>e\<in>set entries. ptype (snd e) \<in> insert ''fixed'' supported_kinds"
    unfolding find_None_iff by blast
  with None show ?thesis unfolding readpriors_def by auto
next
  case (Some e)
  from find_Some_in [OF Some]
  have "\<exists>e\<in>set entries. ptype (snd e) \<notin> insert ''fixed'' supported_kinds" by blast
  with Some show ?thesis unfolding readpriors_def by simp
qed

text \<open>
  Claim C9. \<^verbatim>\<open>transform_prior\<close> dispatches on the five supported kinds (\<^verbatim>\<open>'uniform'\<close>,
  \<^verbatim>\<open>'normal'\<close>, \<^verbatim>\<open>'jeffreys'\<close> for log-uniform, \<^verbatim>\<open>'beta'\<close>, \<^verbatim>\<open>'exponential'\<close>) to the transform
  of \<^verbatim>\<open>utils\<close> of that kind. Set-up aborts exactly when a parameter that is not fixed has
  another kind. After a set-up that did not abort, every parameter of the registry is
  fixed or of a supported kind, and a per-sample call of \<^verbatim>\<open>prior\<close>, under MultiNest and
  under dynesty, for any cube, never raises the TypeError of assigning \<^verbatim>\<open>None\<close> and never
  brings not-a-number into the array; when the cube and the array have \<^verbatim>\<open>n_params\<close> cells
  and every free parameter has its two values, the call returns the array.
\<close>

theorem unsupported_kind_never_per_sample:
  "(ptype info = ''uniform'' \<and> pvalue info = v0 # v1 # rest
      \<longrightarrow> transform_prior U x info = Some (PyFloat (transform_uniform U x v0 v1)))
   \<and> (ptype info = ''normal'' \<and> pvalue info = v0 # v1 # rest
      \<longrightarrow> transform_prior U x info = Some (PyFloat (transform_normal U x v0 v1)))
   \<and> (ptype info = ''jeffreys'' \<and> pvalue info = v0 # v1 # rest
      \<longrightarrow> transform_prior U x info = Some (PyFloat (transform_loguniform U x v0 v1)))
   \<and> (ptype info = ''beta'' \<and> pvalue info = v0 # v1 # rest
      \<longrightarrow> transform_prior U x info = Some (PyFloat (transform_beta U x v0 v1)))
   \<and> (ptype info = ''exponential''
      \<longrightarrow> transform_prior U x info = Some (PyFloat (transform_exponential U x)))
   \<and> ((\<exists>err. readpriors entries = Inl err)
        \<longleftrightarrow> (\<exists>e\<in>set entries. ptype (snd e) \<notin> insert ''fixed'' supported_kinds))
   \<and> (readpriors entries = Inr (pri, n_params) \<longrightarrow>
        (\<forall>e\<in>set pri. ptype (snd e) \<in> insert ''fixed'' supported_kinds)
        \<and> prior U use_dynesty pri cube transformed_priors \<noteq> Inl TypeError
        \<and> (\<forall>cs. prior U use_dynesty pri cube transformed_priors = Inr cs
                  \<and> NaN \<notin> set transformed_priors \<longrightarrow> NaN \<notin> set cs)
        \<and> (length cube = n_params \<and> length transformed_priors = n_params
            \<and> (\<forall>e\<in>set pri. ptype (snd e) \<noteq> ''fixed'' \<longrightarrow> 2 \<le> length (pvalue (snd e)))
           \<longrightarrow> (\<exists>cs. prior U use_dynesty pri cube transformed_priors = Inr cs
                     \<and> length cs = n_params)))"
proof -
  have dispatch:
    "(ptype info = ''uniform'' \<and> pvalue info = v0 # v1 # rest
      \<longrightarrow> transform_prior U x info = Some (PyFloat (transform_uniform U x v0 v1)))
   \<and> (ptype info = ''normal'' \<and> pvalue info = v0 # v1 # rest
      \<longrightarrow> transform_prior U x info = Some (PyFloat (transform_normal U x v0 v1)))
   \<and> (ptype info = ''jeffreys'' \<and> pvalue info = v0 # v1 # rest
      \<longrightarrow> transform_prior U x info = Some (PyFloat (transform_loguniform U x v0 v1)))
   \<and> (ptype info = ''beta'' \<and> pvalue info = v0 # v1 # rest
      \<longrightarrow> transform_prior U x info = Some (PyFloat (transform_beta U x v0 v1)))
   \<and> (ptype info = ''exponential''
      \<longrightarrow> transform_prior U x info = Some (PyFloat (transform_exponential U x)))"
    by (simp add: transform_prior_def nth_opt_def)
  have checked: "readpriors entries = Inr (pri, n_params) \<longrightarrow>
        (\<forall>e\<in>set pri. ptype (snd e) \<in> insert ''fixed'' supported_kinds)
        \<and> prior U use_dynesty pri cube transformed_priors \<noteq> Inl TypeError
        \<and> (\<forall>cs. prior U use_dynesty pri cube transformed_priors = Inr cs
                  \<and> NaN \<notin> set transformed_priors \<longrightarrow> NaN \<notin> set cs)
        \<and> (length cube = n_params \<and> length transformed_priors = n_params
            \<and> (\<forall>e\<in>set pri. ptype (snd e) \<noteq> ''fixed'' \<longrightarrow> 2 \<le> length (pvalue (snd e)))
           \<longrightarrow> (\<exists>cs. prior U use_dynesty pri cube transformed_priors = Inr cs
                     \<and> length cs = n_params))"
  proof
    assume "readpriors entries = Inr (pri, n_params)"
    then have kinds: "\<forall>e\<in>set pri. ptype (snd e) \<in> insert ''fixed'' supported_kinds"
      and n: "n_params = length (filter (\<lambda>e. ptype (snd e) \<noteq> ''fixed'') pri)"
      unfolding readpriors_Inr by simp_all
    let ?target = "if use_dynesty then transformed_priors else map Val cube"
    have no_err: "prior U use_dynesty pri cube transformed_priors \<noteq> Inl TypeError"
      unfolding prior_def by (rule prior_values_no_TypeError [OF kinds])
    have no_nan: "NaN \<notin> set cs"
      if "prior U use_dynesty pri cube transformed_priors = Inr cs" "NaN \<notin> set transformed_priors"
      for cs
    proof -
      from that(2) have "NaN \<notin> set ?target" by auto
      from prior_values_no_NaN [OF kinds that(1) [unfolded prior_def] this] show ?thesis .
    qed
    have returns: "\<exists>cs. prior U use_dynesty pri cube transformed_priors = Inr cs
                     \<and> length cs = n_params"
      if "length cube = n_params" "length transformed_priors = n_params"
        "\<forall>e\<in>set pri. ptype (snd e) \<noteq> ''fixed'' \<longrightarrow> 2 \<le> length (pvalue (snd e))"
    proof -
      from kinds that(3)
      have wf: "\<forall>e\<in>set pri. ptype (snd e) \<in> insert ''fixed'' supported_kinds
              \<and> (ptype (snd e) \<noteq> ''fixed'' \<longrightarrow> 2 \<le> length (pvalue (snd e)))" by blast
      have len: "length ?target = n_params" using that(1,2) by simp
      from prior_values_returns [OF wf, of 0 cube ?target U use_dynesty] n that(1) len
      show ?thesis unfolding prior_def by simp
    qed
    from kinds no_err no_nan returns
    show "(\<forall>e\<in>set pri. ptype (snd e) \<in> insert ''fixed'' supported_kinds)
        \<and> prior U use_dynesty pri cube transformed_priors \<noteq> Inl TypeError
        \<and> (\<forall>cs. prior U use_dynesty pri cube transformed_priors = Inr cs
                  \<and> NaN \<notin> set transformed_priors \<longrightarrow> NaN \<notin> set cs)
        \<and> (length cube = n_params \<and> length transformed_priors = n_params
            \<and> (\<forall>e\<in>set pri. ptype (snd e) \<noteq> ''fixed'' \<longrightarrow> 2 \<le> length (pvalue (snd e)))
           \<longrightarrow> (\<exists>cs. prior U use_dynesty pri cube transformed_priors = Inr cs
                     \<and> length cs = n_params))"
      by blast
  qed
  from dispatch readpriors_Inl [of entries] checked show ?thesis by blast
qed

lemma prior_supported:
  "prior example_utils True supported_registry [1 / 2, 1 / 2, 1 / 2, 1 / 2, 1 / 2]
       [Val 0, Val 0, Val 0, Val 0, Val 0]
     = Inr [Val 2, Val 2, Val 1, Val (1 / 4), Val (- ln (1 / 2))]"
  "prior example_utils False supported_registry [1 / 2, 1 / 2, 1 / 2, 1 / 2, 1 / 2]
       [Val 0, Val 0, Val 0, Val 0, Val 0]
     = Inr [Val 2, Val 2, Val 1, Val (1 / 4), Val (- ln (1 / 2))]"
  by (simp_all add: prior_def transform_prior_def set_cell_def nth_opt_def example_defs5)

lemma readpriors_examples:
  "readpriors supported_registry = Inr (supported_registry, 5)"
  "readpriors unsupported_registry = Inl (UnsupportedKind ''K_p1'' ''loguniform'')"
  by (simp_all add: readpriors_def example_defs5)

theorem unsupported_kind_never_per_sample_witness:
  "transform_prior example_utils (1 / 2) (snd (kind_entry ''P_p1'' ''uniform'' 1 3))
     = Some (PyFloat (transform_uniform example_utils (1 / 2) 1 3))
   \<and> transform_prior example_utils (1 / 2) (snd (kind_entry ''t0_p1'' ''normal'' 2 1))
     = Some (PyFloat (transform_normal example_utils (1 / 2) 2 1))
   \<and> transform_prior example_utils (1 / 2) (snd (kind_entry ''K_p1'' ''jeffreys'' 1 1))
     = Some (PyFloat (transform_loguniform example_utils (1 / 2) 1 1))
   \<and> transform_prior example_utils (1 / 2) (snd (kind_entry ''ecc_p1'' ''beta'' 1 3))
     = Some (PyFloat (transform_beta example_utils (1 / 2) 1 3))
   \<and> transform_prior example_utils (1 / 2) (snd (kind_entry ''sigma_w_TESS'' ''exponential'' 0 0))
     = Some (PyFloat (transform_exponential example_utils (1 / 2)))
   \<and> (\<exists>err. readpriors unsupported_registry = Inl err)
   \<and> readpriors supported_registry = Inr (supported_registry, 5)
   \<and> NaN \<notin> set [Val 2, Val 2, Val 1, Val (1 / 4), Val (- ln (1 / 2))]
   \<and> (\<exists>cs. prior example_utils True supported_registry [1 / 2, 1 / 2, 1 / 2, 1 / 2, 1 / 2]
               [Val 0, Val 0, Val 0, Val 0, Val 0] = Inr cs \<and> length cs = 5)"
proof -
  note T = unsupported_kind_never_per_sample [where U = example_utils and x = "1 / 2" and rest = "[]"
      and use_dynesty = True and n_params = 5 and pri = supported_registry
      and cube = "[1 / 2, 1 / 2, 1 / 2, 1 / 2, 1 / 2]"
      and transformed_priors = "[Val 0, Val 0, Val 0, Val 0, Val 0]"]
  note S = T [where entries = supported_registry]
  have two: "\<forall>e\<in>set supported_registry. ptype (snd e) \<noteq> ''fixed'' \<longrightarrow> 2 \<le> length (pvalue (snd e))"
    by (simp add: example_defs5)
  have bad: "\<exists>e\<in>set unsupported_registry. ptype (snd e) \<notin> insert ''fixed'' supported_kinds"
    by (simp add: example_defs5)
  have c1: "transform_prior example_utils (1 / 2) (snd (kind_entry ''P_p1'' ''uniform'' 1 3))
     = Some (PyFloat (transform_uniform example_utils (1 / 2) 1 3))"
    using S [where info = "snd (kind_entry ''P_p1'' ''uniform'' 1 3)" and ?v0.0 = 1 and ?v1.0 = 3]
    by (simp add: kind_entry_def)
  have c2: "transform_prior example_utils (1 / 2) (snd (kind_entry ''t0_p1'' ''normal'' 2 1))
     = Some (PyFloat (transform_normal example_utils (1 / 2) 2 1))"
    using S [where info = "snd (kind_entry ''t0_p1'' ''normal'' 2 1)" and ?v0.0 = 2 and ?v1.0 = 1]
    by (simp add: kind_entry_def)
  have c3: "transform_prior example_utils (1 / 2) (snd (kind_entry ''K_p1'' ''jeffreys'' 1 1))
     = Some (PyFloat (transform_loguniform example_utils (1 / 2) 1 1))"
    using S [where info = "snd (kind_entry ''K_p1'' ''jeffreys'' 1 1)" and ?v0.0 = 1 and ?v1.0 = 1]
    by (simp add: kind_entry_def)
  have c4: "transform_prior example_utils (1 / 2) (snd (kind_entry ''ecc_p1'' ''beta'' 1 3))
     = Some (PyFloat (transform_beta example_utils (1 / 2) 1 3))"
    using S [where info = "snd (kind_entry ''ecc_p1'' ''beta'' 1 3)" and ?v0.0 = 1 and ?v1.0 = 3]
    by (simp add: kind_entry_def)
  have c5: "transform_prior example_utils (1 / 2) (snd (kind_entry ''sigma_w_TESS'' ''exponential'' 0 0))
     = Some (PyFloat (transform_exponential example_utils (1 / 2)))"
    using S [where info = "snd (kind_entry ''sigma_w_TESS'' ''exponential'' 0 0)" and ?v0.0 = 0 and ?v1.0 = 0]
    by (simp add: kind_entry_def)
  have c6: "\<exists>err. readpriors unsupported_registry = Inl err"
    using T [where entries = unsupported_registry and info = "snd (kind_entry ''P_p1'' ''uniform'' 1 3)"
        and ?v0.0 = 1 and ?v1.0 = 3] bad
    by blast
  have c7: "NaN \<notin> set [Val 2, Val 2, Val 1, Val (1 / 4), Val (- ln (1 / 2))]"
    and c8: "\<exists>cs. prior example_utils True supported_registry [1 / 2, 1 / 2, 1 / 2, 1 / 2, 1 / 2]
               [Val 0, Val 0, Val 0, Val 0, Val 0] = Inr cs \<and> length cs = 5"
    using S [where info = "snd (kind_entry ''P_p1'' ''uniform'' 1 3)" and ?v0.0 = 1 and ?v1.0 = 3]
      readpriors_examples(1) prior_supported(1) two
    by simp_all
  from c1 c2 c3 c4 c5 c6 readpriors_examples(1) c7 c8 show ?thesis by blast
qed

text \<open>
  \<^verbatim>\<open>juliet.py\<close> itself tests the kind of a parameter only against \<^verbatim>\<open>'fixed'\<close>. On a registry
  that the set-up check refuses, here one whose second parameter has the kind
  \<^verbatim>\<open>'loguniform'\<close>, \<^verbatim>\<open>transform_prior\<close> falls through and hands back \<^verbatim>\<open>None\<close>; \<^verbatim>\<open>prior\<close> then
  raises TypeError under MultiNest and stores not-a-number under dynesty.
\<close>

lemma prior_on_refused_registry:
  "readpriors unsupported_registry = Inl (UnsupportedKind ''K_p1'' ''loguniform'')"
  "transform_prior example_utils (1 / 2) (snd (kind_entry ''K_p1'' ''loguniform'' 1 100)) = Some PyNone"
  "prior example_utils False unsupported_registry [1 / 2, 1 / 2] [Val 0, Val 0] = Inl TypeError"
  "prior example_utils True unsupported_registry [1 / 2, 1 / 2] [Val 0, Val 0] = Inr [Val 2, NaN]"
  by (simp_all add: readpriors_def prior_def transform_prior_def set_cell_def nth_opt_def
        example_defs5)


end
